theory Spec2Isabelle
  imports Complex_Main "HOL-Library.Sublist" "HOL-Library.AList"
begin

section \<open>Conventions of the embedding\<close>

text \<open>
  The development embeds the worker-orchestration substrate of the scraper
  (\<^verbatim>\<open>scraping/reddit/*.py\<close> and \<^verbatim>\<open>scripts/account_pool_manager.py\<close>).

  \<^item> A Python float is the \<^typ>\<open>real\<close> number it denotes; Python integers are
    \<^typ>\<open>int\<close>. Timestamps are added exactly. The arithmetic of the token bucket, whose
    results decide whether tokens are granted, rounds: every float operation there
    passes its exact result through the rounding function \<open>rnd\<close>, a parameter.
  \<^item> Every reading of the wall clock is a parameter of the function that reads it.
  \<^item> Every outcome of the random source is a parameter of the function that draws.
  \<^item> A raised exception is the \<open>Inl\<close> branch of a sum; the payload is the
    exception's message where the code inspects it.
  \<^item> An SQLite table is the list of its rows in insertion order; a JSON object that the
    code counts or iterates is an association list, otherwise a map.
\<close>

text \<open>
  The exceptions that the modelled code raises or catches. \<open>KeyError\<close> carries the
  missing key, the others the message that \<^verbatim>\<open>str(e)\<close> returns.
\<close>

datatype py_error =
    KeyError string
  | IndexError string
  | ValueError string
  | RuntimeError string
  | OperationalError string
  | OtherError string

fun str_error :: "py_error \<Rightarrow> string" where
  "str_error (KeyError k) = [CHR 0x27] @ k @ [CHR 0x27]"
| "str_error (IndexError m) = m"
| "str_error (ValueError m) = m"
| "str_error (RuntimeError m) = m"
| "str_error (OperationalError m) = m"
| "str_error (OtherError m) = m"

section \<open>The account pool (\<^verbatim>\<open>scraping/reddit/session_pool.py\<close>)\<close>

text \<open>
  A row of the table \<^verbatim>\<open>accounts\<close>. The columns \<^verbatim>\<open>last_error\<close> and \<^verbatim>\<open>proxy_id\<close> hold
  \<^verbatim>\<open>NULL\<close> in rows written by the pool and are options. The column \<^verbatim>\<open>cooldown_until\<close>
  is declared \<^verbatim>\<open>REAL DEFAULT 0\<close>; the only \<^verbatim>\<open>INSERT\<close> of the repository
  (\<^verbatim>\<open>add_account\<close>) stores \<^verbatim>\<open>COALESCE(..., 0)\<close> and every \<^verbatim>\<open>UPDATE\<close> stores a number computed
  from numbers, so the column is a number in every row and is modelled as one.
\<close>

record account_row =
  account_id :: string
  client_id :: string
  client_secret :: string
  username :: string
  password :: string
  status :: string
  cooldown_until :: real
  fail_count :: int
  last_error :: "string option"
  proxy_id :: "string option"

record account_credential =
  cred_client_id :: string
  cred_client_secret :: string
  cred_username :: string
  cred_password :: string

type_synonym accounts_table = "account_row list"

text \<open>\<^verbatim>\<open>SELECT ... FROM accounts WHERE account_id=?\<close>: at most one row, the key is primary.\<close>

definition find_account :: "string \<Rightarrow> accounts_table \<Rightarrow> account_row option" where
  "find_account aid tbl = find (\<lambda>r. account_id r = aid) tbl"

text \<open>\<^verbatim>\<open>UPDATE accounts SET ... WHERE ...\<close>: the rows that satisfy the condition are rewritten.\<close>

definition update_where ::
  "(account_row \<Rightarrow> bool) \<Rightarrow> (account_row \<Rightarrow> account_row) \<Rightarrow> accounts_table \<Rightarrow> accounts_table" where
  "update_where cond upd tbl = map (\<lambda>r. if cond r then upd r else r) tbl"

text \<open>
  \<^verbatim>\<open>AccountPool.add_account\<close>: \<^verbatim>\<open>INSERT OR REPLACE\<close> deletes a row with the same primary key
  and inserts the new one; each \<^verbatim>\<open>COALESCE((SELECT col FROM accounts WHERE account_id=?), d)\<close>
  reads the column of the existing row, or the default when there is none.
\<close>

definition add_account :: "string \<Rightarrow> account_credential \<Rightarrow> accounts_table \<Rightarrow> accounts_table" where
  "add_account aid cred tbl =
     (let old = find_account aid tbl;
          row = \<lparr>account_id = aid,
                 client_id = cred_client_id cred,
                 client_secret = cred_client_secret cred,
                 username = cred_username cred,
                 password = cred_password cred,
                 status = (case old of None \<Rightarrow> ''ready'' | Some r \<Rightarrow> status r),
                 cooldown_until = (case old of None \<Rightarrow> 0 | Some r \<Rightarrow> cooldown_until r),
                 fail_count = (case old of None \<Rightarrow> 0 | Some r \<Rightarrow> fail_count r),
                 last_error = (case old of None \<Rightarrow> None | Some r \<Rightarrow> last_error r),
                 proxy_id = (case old of None \<Rightarrow> None | Some r \<Rightarrow> proxy_id r)\<rparr>
      in filter (\<lambda>r. account_id r \<noteq> aid) tbl @ [row])"

text \<open>
  The condition of the selection in \<^verbatim>\<open>acquire\<close>, which is also the condition under which
  the health manager probes a row.
\<close>

definition eligible :: "real \<Rightarrow> account_row \<Rightarrow> bool" where
  "eligible now r = (status r = ''ready'' \<and> cooldown_until r \<le> now)"

text \<open>
  \<^verbatim>\<open>SELECT ... WHERE status='ready' AND cooldown_until <= ? ORDER BY fail_count ASC LIMIT 1\<close>.
  SQL leaves the order among equal \<^verbatim>\<open>fail_count\<close> open; the model takes the table's order
  (\<^const>\<open>sort_key\<close> is stable).
\<close>

definition select_ready :: "real \<Rightarrow> accounts_table \<Rightarrow> account_row option" where
  "select_ready now tbl =
     (case sort_key fail_count (filter (eligible now) tbl) of
        [] \<Rightarrow> None
      | r # _ \<Rightarrow> Some r)"

text \<open>\<^verbatim>\<open>UPDATE accounts SET status='leased' WHERE account_id=?\<close>.\<close>

definition mark_leased :: "string \<Rightarrow> accounts_table \<Rightarrow> accounts_table" where
  "mark_leased aid tbl = update_where (\<lambda>r. account_id r = aid) (\<lambda>r. r\<lparr>status := ''leased''\<rparr>) tbl"

text \<open>The closure \<^verbatim>\<open>_select_and_mark\<close> of \<^verbatim>\<open>acquire\<close>.\<close>

definition select_and_mark :: "real \<Rightarrow> accounts_table \<Rightarrow> account_row option \<times> accounts_table" where
  "select_and_mark now tbl =
     (case select_ready now tbl of
        None \<Rightarrow> (None, tbl)
      | Some r \<Rightarrow> (Some r, mark_leased (account_id r) tbl))"

text \<open>
  \<^verbatim>\<open>AccountPool.acquire\<close>, as far as the table is concerned: the result is the leased row.
  Both attempts compare with the same \<open>now\<close>, read once before the first. What other
  writers of the database do during the one second between the attempts is the
  parameter \<open>meanwhile\<close>.
\<close>

definition acquire ::
  "real \<Rightarrow> (accounts_table \<Rightarrow> accounts_table) \<Rightarrow> accounts_table \<Rightarrow> (py_error + account_row) \<times> accounts_table" where
  "acquire now meanwhile tbl =
     (case select_and_mark now tbl of
        (Some r, tbl') \<Rightarrow> (Inr r, tbl')
      | (None, tbl') \<Rightarrow>
          (case select_and_mark now (meanwhile tbl') of
             (Some r, tbl'') \<Rightarrow> (Inr r, tbl'')
           | (None, tbl'') \<Rightarrow>
               (Inl (RuntimeError ''No ready Reddit accounts available for leasing''), tbl'')))"

text \<open>
  \<^verbatim>\<open>AccountPool.release\<close>, \<^verbatim>\<open>cooldown\<close> and \<^verbatim>\<open>quarantine\<close>. Of the lease they read only
  \<^verbatim>\<open>lease.account_id\<close>, the parameter \<open>aid\<close>; \<open>cooldown_seconds\<close> is the pool's
  attribute (60 by default) and \<^verbatim>\<open>//\<close> is the flooring division of \<^typ>\<open>int\<close>.
\<close>

definition release :: "int \<Rightarrow> real \<Rightarrow> string \<Rightarrow> bool \<Rightarrow> accounts_table \<Rightarrow> accounts_table" where
  "release cooldown_seconds now aid success tbl =
     (if success then
        update_where (\<lambda>r. account_id r = aid)
          (\<lambda>r. r\<lparr>status := ''ready'',
                  cooldown_until := now + real_of_int (max 0 (cooldown_seconds div 4)),
                  fail_count := max (fail_count r - 1) 0\<rparr>) tbl
      else
        update_where (\<lambda>r. account_id r = aid)
          (\<lambda>r. r\<lparr>status := ''ready'',
                  cooldown_until := now + real_of_int cooldown_seconds,
                  fail_count := fail_count r + 1\<rparr>) tbl)"

definition cooldown :: "real \<Rightarrow> string \<Rightarrow> int \<Rightarrow> string option \<Rightarrow> accounts_table \<Rightarrow> accounts_table" where
  "cooldown now aid seconds reason tbl =
     update_where (\<lambda>r. account_id r = aid)
       (\<lambda>r. r\<lparr>status := ''ready'',
               cooldown_until := now + real_of_int seconds,
               last_error := reason\<rparr>) tbl"

definition quarantine :: "string \<Rightarrow> string \<Rightarrow> accounts_table \<Rightarrow> accounts_table" where
  "quarantine aid reason tbl =
     update_where (\<lambda>r. account_id r = aid)
       (\<lambda>r. r\<lparr>status := ''quarantine'', last_error := Some reason\<rparr>) tbl"

text \<open>
  \<^verbatim>\<open>AccountPool.health_report\<close>: \<^verbatim>\<open>SELECT status, COUNT(*) FROM accounts GROUP BY status\<close>
  as a dictionary; a status that no row has is not a key.
\<close>

definition health_report :: "accounts_table \<Rightarrow> string \<Rightarrow> int option" where
  "health_report tbl s =
     (let n = length (filter (\<lambda>r. status r = s) tbl)
      in if n = 0 then None else Some (int n))"

section \<open>The health manager (\<^verbatim>\<open>scripts/account_pool_manager.py\<close>)\<close>

text \<open>The three writes, each keyed by \<^verbatim>\<open>WHERE account_id=?\<close>.\<close>

definition update_on_success :: "real \<Rightarrow> string \<Rightarrow> accounts_table \<Rightarrow> accounts_table" where
  "update_on_success now aid tbl =
     update_where (\<lambda>r. account_id r = aid)
       (\<lambda>r. r\<lparr>status := ''ready'',
               cooldown_until := max 0 (min (cooldown_until r) now),
               fail_count := (if fail_count r > 0 then fail_count r - 1 else 0),
               last_error := None\<rparr>) tbl"

definition hm_cooldown :: "real \<Rightarrow> string \<Rightarrow> int \<Rightarrow> string \<Rightarrow> accounts_table \<Rightarrow> accounts_table" where
  "hm_cooldown now aid seconds reason tbl =
     update_where (\<lambda>r. account_id r = aid)
       (\<lambda>r. r\<lparr>status := ''ready'',
               cooldown_until := now + real_of_int (max 1 seconds),
               fail_count := fail_count r + 1,
               last_error := Some reason\<rparr>) tbl"

definition hm_quarantine :: "string \<Rightarrow> string \<Rightarrow> accounts_table \<Rightarrow> accounts_table" where
  "hm_quarantine aid reason tbl =
     update_where (\<lambda>r. account_id r = aid)
       (\<lambda>r. r\<lparr>status := ''quarantine'', last_error := Some reason\<rparr>) tbl"

text \<open>
  The reason that \<^verbatim>\<open>_health_probe\<close> returns for a failed probe, from the message of the
  exception: Python's \<^verbatim>\<open>in\<close> on strings is the contiguous-sublist test, and the
  comparisons are case-sensitive.
\<close>

definition health_probe_reason :: "string \<Rightarrow> string" where
  "health_probe_reason msg =
     (if sublist ''Too Many Requests'' msg \<or> sublist ''RATELIMIT'' msg \<or> sublist ''429'' msg
      then ''rate-limit''
      else if sublist ''401'' msg \<or> sublist ''403'' msg \<or> sublist ''invalid_grant'' msg
              \<or> sublist ''Forbidden'' msg \<or> sublist ''Unauthorized'' msg
      then ''auth''
      else ''network'')"

text \<open>The outcome of a probe: success, or the message of the exception it raised.\<close>

datatype probe_outcome = ProbeOk | ProbeFailed string

definition health_probe :: "probe_outcome \<Rightarrow> bool \<times> string" where
  "health_probe outcome =
     (case outcome of
        ProbeOk \<Rightarrow> (True, ''ok'')
      | ProbeFailed msg \<Rightarrow> (False, health_probe_reason msg))"

text \<open>The environment knobs of the health manager.\<close>

record hm_config =
  COOLDOWN_BAD :: int
  COOLDOWN_RATE :: int
  QUARANTINE_FAILS :: int

definition hm_defaults :: hm_config where
  "hm_defaults = \<lparr>COOLDOWN_BAD = 60, COOLDOWN_RATE = 120, QUARANTINE_FAILS = 5\<rparr>"

text \<open>The rows that \<^verbatim>\<open>_maintain_accounts\<close> probes, from its snapshot of the table.\<close>

definition to_check :: "real \<Rightarrow> accounts_table \<Rightarrow> accounts_table" where
  "to_check now rows = filter (\<lambda>r. status r = ''ready'' \<and> cooldown_until r \<le> now) rows"

text \<open>
  \<^verbatim>\<open>_check_one\<close> for the snapshot row \<open>r\<close>: the write that follows the probe, applied to
  the table as it is when the probe has returned (at time \<open>now\<close>).
\<close>

definition check_one ::
  "hm_config \<Rightarrow> real \<Rightarrow> account_row \<Rightarrow> probe_outcome \<Rightarrow> accounts_table \<Rightarrow> accounts_table" where
  "check_one cfg now r outcome tbl =
     (case health_probe outcome of
        (True, reason) \<Rightarrow> update_on_success now (account_id r) tbl
      | (False, reason) \<Rightarrow>
          (let fails = fail_count r + 1 in
           if reason = ''rate-limit'' then
             hm_cooldown now (account_id r) (COOLDOWN_RATE cfg) ''rate-limit'' tbl
           else if reason = ''auth'' then
             hm_quarantine (account_id r) ''auth'' tbl
           else if fails \<ge> QUARANTINE_FAILS cfg then
             hm_quarantine (account_id r) ''repeated-failures'' tbl
           else
             hm_cooldown now (account_id r) (COOLDOWN_BAD cfg) ''network'' tbl))"

section \<open>The orchestrator (\<^verbatim>\<open>scraping/reddit/worker_orchestrator.py\<close>)\<close>

subsection \<open>Classification of error messages\<close>

text \<open>
  \<^verbatim>\<open>str.lower()\<close> on the letters of ASCII; a character is a byte, and the bytes of a
  character outside ASCII are left as they are. The lower-case letter of an upper-case
  one (codes 65 to 90) is 32 above it, which sets the bit of weight 32.
\<close>

definition lower_char :: "char \<Rightarrow> char" where
  "lower_char c =
     (let n = (of_char c :: nat) in
      if 65 \<le> n \<and> n \<le> 90
      then (case c of Char b0 b1 b2 b3 b4 b5 b6 b7 \<Rightarrow> Char b0 b1 b2 b3 b4 True b6 b7)
      else c)"

definition lower :: "string \<Rightarrow> string" where
  "lower s = map lower_char s"

definition looks_rate_limited :: "string \<Rightarrow> bool" where
  "looks_rate_limited msg =
     (let s = lower msg
      in sublist ''too many requests'' s \<or> sublist ''ratelimit'' s \<or> sublist ''429'' s)"

definition looks_auth_ban :: "string \<Rightarrow> bool" where
  "looks_auth_ban msg =
     (let s = lower msg
      in sublist ''unauthorized'' s \<or> sublist ''forbidden'' s \<or> sublist ''403'' s
         \<or> sublist ''401'' s \<or> sublist ''invalid_grant'' s)"

text \<open>
  The branch that the \<^verbatim>\<open>if/elif/else\<close> of the worker's exception handler takes, named
  like the reasons of the health manager.
\<close>

definition worker_error_class :: "string \<Rightarrow> string" where
  "worker_error_class msg =
     (if looks_rate_limited msg then ''rate-limit''
      else if looks_auth_ban msg then ''auth''
      else ''network'')"





subsection \<open>Job runtime state and its file\<close>

text \<open>
  An entry of \<^verbatim>\<open>job_state.json\<close>; the empty dictionary has neither key. The keys of the
  state are whatever \<^verbatim>\<open>job.get("id")\<close> returns, the type \<open>'k\<close>.
\<close>

record job_rt =
  last_run_ts :: "real option"
  next_eligible_ts :: "real option"

definition empty_rt :: job_rt where
  "empty_rt = \<lparr>last_run_ts = None, next_eligible_ts = None\<rparr>"

text \<open>The knobs \<^verbatim>\<open>ORCH_JOB_COOLDOWN_MIN\<close> and \<^verbatim>\<open>ORCH_JOB_COOLDOWN_MAX\<close>.\<close>

record orch_config =
  JOB_COOLDOWN_MIN :: int
  JOB_COOLDOWN_MAX :: int

definition orch_defaults :: orch_config where
  "orch_defaults = \<lparr>JOB_COOLDOWN_MIN = 1200, JOB_COOLDOWN_MAX = 1800\<rparr>"

text \<open>
  \<^verbatim>\<open>random.randint(a, b)\<close> is \<^verbatim>\<open>a + _randbelow(b - a + 1)\<close>, where
  \<^verbatim>\<open>_randbelow(n)\<close> is the random source: a uniform choice among the \<open>n\<close> numbers below
  \<open>n\<close>. Its outcome is the parameter \<open>k\<close> (the remainder only confines a parameter
  that is not below \<open>n\<close>). An empty range raises \<^verbatim>\<open>ValueError\<close>, with the interpreter's
  message \<open>txt\<close>.
\<close>

definition randint :: "string \<Rightarrow> int \<Rightarrow> int \<Rightarrow> nat \<Rightarrow> py_error + int" where
  "randint txt a b k =
     (if b < a then Inl (ValueError txt) else Inr (a + int (k mod nat (b - a + 1))))"

definition job_cooldown_window :: "orch_config \<Rightarrow> string \<Rightarrow> nat \<Rightarrow> py_error + int" where
  "job_cooldown_window cfg txt k = randint txt (JOB_COOLDOWN_MIN cfg) (JOB_COOLDOWN_MAX cfg) k"


text \<open>
  \<^verbatim>\<open>_mark_job_cooldown\<close>, with the result of \<^verbatim>\<open>_job_cooldown_window()\<close> as \<open>window\<close>.
  \<^verbatim>\<open>st = state.get(jid) or {}\<close> is the stored dictionary itself when it is not empty, so
  the assignment of \<^verbatim>\<open>last_run_ts\<close> is already visible in the state when the draw raises.
  The result is the exception, if any, and the state.
\<close>

definition mark_job_cooldown ::
  "'k \<Rightarrow> real \<Rightarrow> py_error + int \<Rightarrow> ('k \<rightharpoonup> job_rt) \<Rightarrow> py_error option \<times> ('k \<rightharpoonup> job_rt)" where
  "mark_job_cooldown jid now window state =
     (let st = (case state jid of None \<Rightarrow> empty_rt | Some e \<Rightarrow> e);
          st1 = st\<lparr>last_run_ts := Some now\<rparr>;
          aliased = (state jid \<noteq> None \<and> state jid \<noteq> Some empty_rt)
      in case window of
           Inl err \<Rightarrow> (Some err, if aliased then state(jid \<mapsto> st1) else state)
         | Inr u \<Rightarrow> (None, state(jid \<mapsto> st1\<lparr>next_eligible_ts := Some (now + real_of_int u)\<rparr>)))"

text \<open>
  What a reader finds in a file: the complete JSON value that was written, or the
  beginning of one while \<^verbatim>\<open>write_text\<close> has opened (and so truncated) the file and has
  not finished.
\<close>

datatype 'v file_content = Partial | Written 'v

text \<open>
  \<^verbatim>\<open>_save_json\<close>, step by step; \<open>tmp\<close> is \<^verbatim>\<open>path.with_suffix(".tmp")\<close>.
  \<^verbatim>\<open>tmp.write_text(...)\<close> opens the temporary file and then completes it, and
  \<^verbatim>\<open>tmp.replace(path)\<close> renames it over the target in one step of the file system;
  renaming a file onto itself changes nothing. \<open>save_json_states\<close> lists the states of
  the file system that another process can observe after the call has begun, the
  last of which is the result.
\<close>

definition save_json_open_tmp :: "'f \<Rightarrow> ('f \<rightharpoonup> 'v file_content) \<Rightarrow> ('f \<rightharpoonup> 'v file_content)" where
  "save_json_open_tmp tmp fs = fs(tmp \<mapsto> Partial)"

definition save_json_write_tmp ::
  "'f \<Rightarrow> 'v \<Rightarrow> ('f \<rightharpoonup> 'v file_content) \<Rightarrow> ('f \<rightharpoonup> 'v file_content)" where
  "save_json_write_tmp tmp data fs = fs(tmp \<mapsto> Written data)"

definition save_json_replace ::
  "'f \<Rightarrow> 'f \<Rightarrow> ('f \<rightharpoonup> 'v file_content) \<Rightarrow> ('f \<rightharpoonup> 'v file_content)" where
  "save_json_replace tmp path fs = (if tmp = path then fs else (fs(path := fs tmp))(tmp := None))"

definition save_json_states ::
  "'f \<Rightarrow> 'f \<Rightarrow> 'v \<Rightarrow> ('f \<rightharpoonup> 'v file_content) \<Rightarrow> ('f \<rightharpoonup> 'v file_content) list" where
  "save_json_states tmp path data fs =
     (let fs1 = save_json_open_tmp tmp fs;
          fs2 = save_json_write_tmp tmp data fs1;
          fs3 = save_json_replace tmp path fs2
      in [fs1, fs2, fs3])"

definition save_json ::
  "'f \<Rightarrow> 'f \<Rightarrow> 'v \<Rightarrow> ('f \<rightharpoonup> 'v file_content) \<Rightarrow> ('f \<rightharpoonup> 'v file_content)" where
  "save_json tmp path data fs = last (save_json_states tmp path data fs)"

subsection \<open>Last seen identifiers\<close>

text \<open>
  \<^verbatim>\<open>_extract_last_ids\<close>. \<^verbatim>\<open>RedditContent.from_data_entity\<close> is the parameter \<open>decode\<close>: it
  raises, or returns the content's \<^verbatim>\<open>id\<close>, which may be \<^verbatim>\<open>None\<close>.
\<close>

definition last_ids_step ::
  "('e \<Rightarrow> py_error + string option) \<Rightarrow> string option \<times> string option \<Rightarrow> 'e
     \<Rightarrow> string option \<times> string option" where
  "last_ids_step decode acc e =
     (case decode e of
        Inl err \<Rightarrow> acc
      | Inr ident \<Rightarrow>
          (let rid = (case ident of None \<Rightarrow> [] | Some s \<Rightarrow> s) in
           if prefix ''t3_'' rid then (Some rid, snd acc)
           else if prefix ''t1_'' rid then (fst acc, Some rid)
           else acc))"

definition extract_last_ids ::
  "('e \<Rightarrow> py_error + string option) \<Rightarrow> 'e list \<Rightarrow> string option \<times> string option" where
  "extract_last_ids decode entities = foldl (last_ids_step decode) (None, None) entities"

subsection \<open>The accounts database and the worker checkpoint store\<close>

text \<open>
  A row of the table \<^verbatim>\<open>checkpoints\<close> that \<^verbatim>\<open>WorkerCheckpointStore\<close>
  (\<^verbatim>\<open>scraping/reddit/worker_checkpoint_store.py\<close>) reads and writes, and a row of \<^verbatim>\<open>proxies\<close>.
\<close>

record checkpoint_row =
  worker_id :: string
  cp_account_id :: "string option"
  last_subreddit :: "string option"
  last_post_id :: "string option"
  last_comment_id :: "string option"
  cp_updated_at :: real

record proxy_row =
  px_proxy_id :: string
  px_http :: "string option"
  px_https :: "string option"
  px_tag :: "string option"
  px_provider :: "string option"

text \<open>
  The database file \<^verbatim>\<open>accounts.db\<close>: each table is there with its rows, or is not there
  (\<open>None\<close>). A statement on a table that is not there raises
  \<^verbatim>\<open>sqlite3.OperationalError\<close>.
\<close>

record accounts_db =
  accounts :: "account_row list option"
  proxies :: "proxy_row list option"
  checkpoints :: "checkpoint_row list option"

definition new_db :: accounts_db where
  "new_db = \<lparr>accounts = None, proxies = None, checkpoints = None\<rparr>"

text \<open>\<^verbatim>\<open>AccountPool._init_schema\<close>: two \<^verbatim>\<open>CREATE TABLE IF NOT EXISTS\<close>.\<close>

definition init_schema :: "accounts_db \<Rightarrow> accounts_db" where
  "init_schema d =
     d\<lparr>accounts := Some (case accounts d of None \<Rightarrow> [] | Some t \<Rightarrow> t),
       proxies := Some (case proxies d of None \<Rightarrow> [] | Some t \<Rightarrow> t)\<rparr>"

text \<open>A statement of the pool on the table \<^verbatim>\<open>accounts\<close>.\<close>

definition exec_accounts ::
  "(accounts_table \<Rightarrow> accounts_table) \<Rightarrow> accounts_db \<Rightarrow> py_error + accounts_db" where
  "exec_accounts stmt d =
     (case accounts d of
        None \<Rightarrow> Inl (OperationalError ''no such table: accounts'')
      | Some t \<Rightarrow> Inr (d\<lparr>accounts := Some (stmt t)\<rparr>))"

text \<open>
  \<^verbatim>\<open>WorkerCheckpointStore.upsert\<close>:
  \<^verbatim>\<open>INSERT INTO checkpoints ... ON CONFLICT(worker_id) DO UPDATE SET ...\<close>. The class has no
  \<^verbatim>\<open>_init_schema\<close> of its own; its constructor only connects.
\<close>

definition upsert ::
  "string \<Rightarrow> string option \<Rightarrow> string option \<Rightarrow> string option \<Rightarrow> string option \<Rightarrow> real
     \<Rightarrow> accounts_db \<Rightarrow> py_error + accounts_db" where
  "upsert wid aid sub lp lc ts d =
     (case checkpoints d of
        None \<Rightarrow> Inl (OperationalError ''no such table: checkpoints'')
      | Some t \<Rightarrow>
          (let row = \<lparr>worker_id = wid, cp_account_id = aid, last_subreddit = sub,
                       last_post_id = lp, last_comment_id = lc, cp_updated_at = ts\<rparr>
           in Inr (d\<lparr>checkpoints :=
                       Some (if find (\<lambda>r. worker_id r = wid) t = None then t @ [row]
                             else map (\<lambda>r. if worker_id r = wid then row else r) t)\<rparr>)))"

text \<open>\<^verbatim>\<open>WorkerCheckpointStore.get\<close>.\<close>

definition get :: "string \<Rightarrow> accounts_db \<Rightarrow> py_error + checkpoint_row option" where
  "get wid d =
     (case checkpoints d of
        None \<Rightarrow> Inl (OperationalError ''no such table: checkpoints'')
      | Some t \<Rightarrow> Inr (find (\<lambda>r. worker_id r = wid) t))"

text \<open>The worker's \<^verbatim>\<open>try: await store.upsert(...) except Exception: pass\<close>.\<close>

definition try_upsert ::
  "string \<Rightarrow> string option \<Rightarrow> string option \<Rightarrow> string option \<Rightarrow> string option \<Rightarrow> real
     \<Rightarrow> accounts_db \<Rightarrow> accounts_db" where
  "try_upsert wid aid sub lp lc ts d =
     (case upsert wid aid sub lp lc ts d of Inl err \<Rightarrow> d | Inr d' \<Rightarrow> d')"

subsection \<open>One job of a worker\<close>

text \<open>
  What a worker's iteration acts on: the accounts database, its own dictionary
  \<^verbatim>\<open>job_state\<close>, and the files.
\<close>

record ('k, 'f) world =
  db :: accounts_db
  job_state :: "'k \<rightharpoonup> job_rt"
  files :: "'f \<rightharpoonup> ('k \<rightharpoonup> job_rt) file_content"

text \<open>
  What is fixed when the scrape starts: the worker's id as a string, \<^verbatim>\<open>lease.account_id\<close>,
  \<^verbatim>\<open>job.get("id")\<close>, \<^verbatim>\<open>last_subreddit\<close>, the path of the state file and
  \<^verbatim>\<open>path.with_suffix(".tmp")\<close>, the decoder of entities, the pool's \<^verbatim>\<open>cooldown_seconds\<close>,
  the knobs, and the message of \<^verbatim>\<open>randint\<close> for an empty range.
\<close>

record ('k, 'f, 'e) job_ctx =
  ctx_worker :: string
  lease_account_id :: string
  ctx_jid :: 'k
  ctx_subreddit :: string
  job_state_path :: 'f
  tmp_path :: 'f
  ctx_decode :: "'e \<Rightarrow> py_error + string option"
  pool_cooldown_seconds :: int
  ctx_knobs :: orch_config
  empty_range_text :: string

text \<open>
  What the environment supplies during the iteration: the result of
  \<^verbatim>\<open>scraper.scrape_advanced\<close> (the entities, or the exception), the outcome of the random
  source in \<^verbatim>\<open>_job_cooldown_window\<close>, and the
  readings of the clock at the initial checkpoint, in \<^verbatim>\<open>_mark_job_cooldown\<close>, at the final
  checkpoint, in \<^verbatim>\<open>pool.release\<close>, in \<^verbatim>\<open>pool.cooldown\<close> and at the checkpoint on error.
\<close>

record 'e run_inputs =
  scrape_result :: "py_error + 'e list"
  rand_below :: nat
  t_start :: real
  t_mark :: real
  t_end :: real
  t_release :: real
  t_cooldown :: real
  t_error :: real

text \<open>
  The handler \<^verbatim>\<open>except Exception as e\<close> of the scrape (lines 308 to 336) with
  \<open>msg = str(e)\<close>. The dispatch stands in a \<^verbatim>\<open>try ... except Exception: pass\<close>: an exception
  ends it and keeps the writes made before.
\<close>

definition on_error ::
  "('k, 'f, 'e) job_ctx \<Rightarrow> 'e run_inputs \<Rightarrow> string \<Rightarrow> ('k, 'f) world \<Rightarrow> ('k, 'f) world" where
  "on_error ctx inp msg w =
     (let aid = lease_account_id ctx;
          rel = (\<lambda>d. case exec_accounts (release (pool_cooldown_seconds ctx) (t_release inp) aid False) d of
                        Inl err \<Rightarrow> d | Inr d' \<Rightarrow> d');
          d0 = db w;
          d1 = (if looks_rate_limited msg then
                  (case exec_accounts (cooldown (t_cooldown inp) aid 120 (Some ''rate-limit'')) d0 of
                     Inl err \<Rightarrow> d0 | Inr d \<Rightarrow> rel d)
                else if looks_auth_ban msg then
                  (case exec_accounts (quarantine aid ''auth'') d0 of
                     Inl err \<Rightarrow> d0 | Inr d \<Rightarrow> rel d)
                else rel d0);
          d2 = try_upsert (ctx_worker ctx) (Some aid) (Some (ctx_subreddit ctx)) None None (t_error inp) d1
      in w\<lparr>db := d2\<rparr>)"

text \<open>
  The iteration of \<^verbatim>\<open>worker_task\<close> from the initial checkpoint (line 268) to the end of the
  handler (line 336), for a lease that \<^verbatim>\<open>pool.acquire()\<close> has returned.
\<close>

definition worker_job ::
  "('k, 'f, 'e) job_ctx \<Rightarrow> 'e run_inputs \<Rightarrow> ('k, 'f) world \<Rightarrow> ('k, 'f) world" where
  "worker_job ctx inp w =
     (let aid = lease_account_id ctx;
          w1 = w\<lparr>db := try_upsert (ctx_worker ctx) (Some aid) (Some (ctx_subreddit ctx)) None None
                         (t_start inp) (db w)\<rparr>
      in case scrape_result inp of
           Inl e \<Rightarrow> on_error ctx inp (str_error e) w1
         | Inr entities \<Rightarrow>
             (case mark_job_cooldown (ctx_jid ctx) (t_mark inp)
                     (job_cooldown_window (ctx_knobs ctx) (empty_range_text ctx) (rand_below inp))
                     (job_state w1) of
                (Some e, st) \<Rightarrow> on_error ctx inp (str_error e) (w1\<lparr>job_state := st\<rparr>)
              | (None, st) \<Rightarrow>
                  (let w2 = w1\<lparr>job_state := st,
                               files := save_json (tmp_path ctx) (job_state_path ctx) st (files w1)\<rparr>;
                       ids = extract_last_ids (ctx_decode ctx) entities;
                       w3 = w2\<lparr>db := try_upsert (ctx_worker ctx) (Some aid) (Some (ctx_subreddit ctx))
                                      (fst ids) (snd ids) (t_end inp) (db w2)\<rparr>
                   in case exec_accounts
                             (release (pool_cooldown_seconds ctx) (t_release inp) aid True) (db w3) of
                        Inl e \<Rightarrow> on_error ctx inp (str_error e) w3
                      | Inr d \<Rightarrow> w3\<lparr>db := d\<rparr>)))"

subsection \<open>The autoscaling supervisor\<close>

text \<open>\<^verbatim>\<open>int(x)\<close> on a float: truncation towards zero.\<close>

definition py_int :: "real \<Rightarrow> int" where
  "py_int x = (if 0 \<le> x then \<lfloor>x\<rfloor> else \<lceil>x\<rceil>)"

definition target_workers :: "int \<Rightarrow> int" where
  "target_workers ready = max 0 (py_int (real_of_int ready * 0.75))"

text \<open>
  The registry \<^verbatim>\<open>workers\<close> (a dictionary, iterated in the order of registration) as the
  list of its worker ids, and \<^verbatim>\<open>next_worker_id\<close>.
\<close>

record registry =
  workers :: "nat list"
  next_worker_id :: nat

text \<open>
  The loop that cancels the first \<open>n\<close> workers of the registry:
  \<^verbatim>\<open>task.cancel(); try: await task; except Exception: pass; workers.pop(wid)\<close>.
  \<^verbatim>\<open>await task\<close> re-raises \<^verbatim>\<open>asyncio.CancelledError\<close> when the task ends cancelled, which
  \<^verbatim>\<open>except Exception\<close> does not catch; \<open>reraises w\<close> tells whether that happens for the
  worker \<open>w\<close>. The loop then ends with this worker and the later ones still
  registered, and the result says so with \<open>True\<close>.
\<close>

fun cancel_oldest :: "(nat \<Rightarrow> bool) \<Rightarrow> nat \<Rightarrow> nat list \<Rightarrow> bool \<times> nat list" where
  "cancel_oldest reraises 0 ws = (False, ws)"
| "cancel_oldest reraises (Suc n) [] = (False, [])"
| "cancel_oldest reraises (Suc n) (w # ws) =
     (if reraises w then (True, w # ws) else cancel_oldest reraises n ws)"

text \<open>
  The spawning and the cancelling of one tick: both compare the target with the number of
  workers counted before either. The boolean tells that \<^verbatim>\<open>CancelledError\<close> has left the
  cancelling loop.
\<close>

definition reconcile :: "(nat \<Rightarrow> bool) \<Rightarrow> int \<Rightarrow> registry \<Rightarrow> bool \<times> registry" where
  "reconcile reraises target reg =
     (let current = int (length (workers reg)) in
      if target > current then
        (let add = nat (target - current) in
         (False, reg\<lparr>workers := workers reg @ [next_worker_id reg ..< next_worker_id reg + add],
                     next_worker_id := next_worker_id reg + add\<rparr>))
      else if target < current then
        (case cancel_oldest reraises (nat (current - target)) (workers reg) of
           (raised, ws) \<Rightarrow> (raised, reg\<lparr>workers := ws\<rparr>))
      else (False, reg))"

text \<open>The reaping of the tasks that are done when the loop looks at them.\<close>

definition reap :: "(nat \<Rightarrow> bool) \<Rightarrow> registry \<Rightarrow> registry" where
  "reap is_done reg = reg\<lparr>workers := filter (\<lambda>wid. \<not> is_done wid) (workers reg)\<rparr>"

text \<open>
  The target of a tick: \<open>report\<close> is the dictionary of \<^verbatim>\<open>pool.health_report()\<close>, or the
  exception it raised, for which the code takes the empty dictionary.
\<close>

definition tick_target :: "py_error + (string \<Rightarrow> int option) \<Rightarrow> int" where
  "tick_target report =
     (let health = (case report of Inl err \<Rightarrow> (\<lambda>s. None) | Inr h \<Rightarrow> h);
          ready = (case health ''ready'' of None \<Rightarrow> 0 | Some n \<Rightarrow> n)
      in target_workers ready)"

text \<open>
  One tick of \<^verbatim>\<open>orchestrate\<close>. A \<^verbatim>\<open>CancelledError\<close> out of the cancelling loop reaches
  \<^verbatim>\<open>except asyncio.CancelledError: break\<close> of the supervisor: the tick ends without
  reaping and the supervisor leaves its loop, which the boolean of the result tells.
\<close>

definition orchestrate_tick ::
  "py_error + (string \<Rightarrow> int option) \<Rightarrow> (nat \<Rightarrow> bool) \<Rightarrow> (nat \<Rightarrow> bool) \<Rightarrow> registry
     \<Rightarrow> bool \<times> registry" where
  "orchestrate_tick report reraises is_done reg =
     (case reconcile reraises (tick_target report) reg of
        (True, reg') \<Rightarrow> (True, reg')
      | (False, reg') \<Rightarrow> (False, reap is_done reg'))"

section \<open>The token bucket (\<^verbatim>\<open>scraping/reddit/rate_limiter.py\<close>)\<close>

text \<open>A row of the table \<^verbatim>\<open>buckets\<close>, and the table keyed by the bucket's name.\<close>

record bucket_row =
  capacity :: real
  tokens :: real
  refill_rate :: real
  updated_at :: real

type_synonym buckets = "string \<rightharpoonup> bucket_row"

text \<open>\<^verbatim>\<open>SqliteTokenBucketLimiter.ensure_bucket\<close>, called at the time \<open>now\<close>.\<close>

definition ensure_bucket :: "string \<Rightarrow> real \<Rightarrow> real \<Rightarrow> real \<Rightarrow> buckets \<Rightarrow> buckets" where
  "ensure_bucket name cap refill now tbl =
     (case tbl name of
        Some row \<Rightarrow> tbl
      | None \<Rightarrow> tbl(name \<mapsto> \<lparr>capacity = cap, tokens = cap, refill_rate = refill, updated_at = now\<rparr>))"

text \<open>
  The amount after the refill, from a row read at the time \<open>now\<close>: the subtraction, the
  product and the sum are float operations and round; \<^verbatim>\<open>max\<close> and \<^verbatim>\<open>min\<close> do not.
\<close>

definition refilled :: "(real \<Rightarrow> real) \<Rightarrow> real \<Rightarrow> bucket_row \<Rightarrow> real" where
  "refilled rnd now row =
     (let elapsed = max 0 (rnd (now - updated_at row))
      in min (capacity row) (rnd (tokens row + rnd (refill_rate row * elapsed))))"

text \<open>
  \<^verbatim>\<open>_try_acquire_once\<close> for \<open>req\<close> tokens: a missing row is first inserted with the
  default 5, 5, 5; the row is then rewritten in either branch. The deduction
  \<^verbatim>\<open>current -= tokens\<close> rounds.
\<close>

definition try_acquire_once ::
  "(real \<Rightarrow> real) \<Rightarrow> string \<Rightarrow> real \<Rightarrow> real \<Rightarrow> buckets \<Rightarrow> bool \<times> buckets" where
  "try_acquire_once rnd name req now tbl =
     (let row = (case tbl name of
                   None \<Rightarrow> \<lparr>capacity = 5, tokens = 5, refill_rate = 5, updated_at = now\<rparr>
                 | Some r \<Rightarrow> r);
          current = refilled rnd now row
      in if current \<ge> req
         then (True, tbl(name \<mapsto> row\<lparr>tokens := rnd (current - req), updated_at := now\<rparr>))
         else (False, tbl(name \<mapsto> row\<lparr>tokens := current, updated_at := now\<rparr>)))"

text \<open>
  The loop of \<^verbatim>\<open>acquire\<close>. The clock is part of the state: it stands still during an
  attempt and \<^verbatim>\<open>asyncio.sleep(0.1)\<close> advances it by a tenth of a second, the least that
  the sleep can take. The loop has no bound when there is no deadline, so the model
  counts iterations down from \<open>fuel\<close> and returns \<open>None\<close> when they are used up. The
  result is the returned boolean, the clock at the return, and the table.
\<close>

fun acquire_loop ::
  "(real \<Rightarrow> real) \<Rightarrow> nat \<Rightarrow> string \<Rightarrow> real \<Rightarrow> real option \<Rightarrow> real \<Rightarrow> buckets
     \<Rightarrow> (bool \<times> real \<times> buckets) option" where
  "acquire_loop rnd 0 name req deadline clock tbl = None"
| "acquire_loop rnd (Suc fuel) name req deadline clock tbl =
     (case try_acquire_once rnd name req clock tbl of
        (True, tbl') \<Rightarrow> Some (True, clock, tbl')
      | (False, tbl') \<Rightarrow>
          (if (case deadline of None \<Rightarrow> False | Some d \<Rightarrow> clock \<ge> d)
           then Some (False, clock, tbl')
           else acquire_loop rnd fuel name req deadline (clock + 1 / 10) tbl'))"

text \<open>\<^verbatim>\<open>acquire(name, tokens, timeout)\<close> called when the clock shows \<open>clock\<close>.\<close>

definition bucket_acquire ::
  "(real \<Rightarrow> real) \<Rightarrow> nat \<Rightarrow> string \<Rightarrow> real \<Rightarrow> real option \<Rightarrow> real \<Rightarrow> buckets
     \<Rightarrow> (bool \<times> real \<times> buckets) option" where
  "bucket_acquire rnd fuel name req timeout clock tbl =
     acquire_loop rnd fuel name req (map_option (\<lambda>t. clock + t) timeout) clock tbl"

text \<open>
  What the proofs use of float arithmetic: rounding is monotone and zero is a float.
  A number is a float when rounding leaves it as it is. Round-to-nearest has both
  properties as long as no operation overflows.
\<close>

definition rounding :: "(real \<Rightarrow> real) \<Rightarrow> bool" where
  "rounding rnd = (mono rnd \<and> rnd 0 = 0)"

definition is_float :: "(real \<Rightarrow> real) \<Rightarrow> real \<Rightarrow> bool" where
  "is_float rnd x = (rnd x = x)"

text \<open>The invariant of a row: the tokens are between zero and the capacity.\<close>

definition bucket_ok :: "bucket_row \<Rightarrow> bool" where
  "bucket_ok r = (0 \<le> tokens r \<and> tokens r \<le> capacity r)"

section \<open>The JSON job queue (\<^verbatim>\<open>scraping/reddit/job_queue.py\<close>)\<close>

text \<open>
  A job as it is stored in the file: the dictionary written by \<^verbatim>\<open>Job.to_dict\<close>. The key
  \<^verbatim>\<open>attempts\<close> is optional because \<^verbatim>\<open>nack\<close> and \<^verbatim>\<open>Job.from_dict\<close> read it with a default.
\<close>

record 'p job_dict =
  job_id :: string
  weight :: real
  payload :: 'p
  attempts :: "int option"
  enqueued_at :: real

text \<open>
  The file \<^verbatim>\<open>{"queue": [...], "inflight": {...}}\<close>. A key may be absent, which the code
  anticipates with \<^verbatim>\<open>data.get(key, default)\<close>.
\<close>

record 'p jobs_json =
  queue :: "'p job_dict list option"
  inflight :: "(string \<times> 'p job_dict) list option"

text \<open>The file on disk together with the number of times \<^verbatim>\<open>_save\<close> has written it.\<close>

record 'p job_queue =
  contents :: "'p jobs_json"
  saves :: nat

definition ensure_file :: "'p job_queue option \<Rightarrow> 'p job_queue" where
  "ensure_file existing =
     (case existing of
        None \<Rightarrow> \<lparr>contents = \<lparr>queue = Some [], inflight = Some []\<rparr>, saves = 1\<rparr>
      | Some q \<Rightarrow> q)"

definition save :: "'p jobs_json \<Rightarrow> 'p job_queue \<Rightarrow> 'p job_queue" where
  "save data q = q\<lparr>contents := data, saves := Suc (saves q)\<rparr>"

definition get_queue :: "'p jobs_json \<Rightarrow> 'p job_dict list" where
  "get_queue data = (case queue data of None \<Rightarrow> [] | Some js \<Rightarrow> js)"

definition get_inflight :: "'p jobs_json \<Rightarrow> (string \<times> 'p job_dict) list" where
  "get_inflight data = (case inflight data of None \<Rightarrow> [] | Some m \<Rightarrow> m)"

text \<open>\<^verbatim>\<open>job_id in d\<close> for a dictionary held as an association list.\<close>

definition has_key :: "string \<Rightarrow> (string \<times> 'v) list \<Rightarrow> bool" where
  "has_key k m = (map_of m k \<noteq> None)"

definition enqueue :: "real \<Rightarrow> 'p job_dict \<Rightarrow> 'p job_queue \<Rightarrow> py_error + 'p job_queue" where
  "enqueue now job q =
     (let data = contents q in
      case queue data of
        None \<Rightarrow> Inl (KeyError ''queue'')
      | Some js \<Rightarrow> Inr (save (data\<lparr>queue := Some (js @ [job\<lparr>enqueued_at := now\<rparr>])\<rparr>) q))"

text \<open>
  \<^verbatim>\<open>Job.from_dict\<close> followed by \<^verbatim>\<open>Job.to_dict\<close>: the defaults are filled in.
\<close>

definition normalise_job :: "'p job_dict \<Rightarrow> 'p job_dict" where
  "normalise_job j = j\<lparr>attempts := Some (case attempts j of None \<Rightarrow> 0 | Some a \<Rightarrow> a)\<rparr>"

text \<open>
  \<^verbatim>\<open>dequeue\<close>; the index chosen by \<^verbatim>\<open>_weighted_pick_index\<close> is the parameter \<open>idx\<close>
  (a random draw among the indices of the queue); \<^verbatim>\<open>q.pop(idx)\<close> raises for any other.
\<close>

definition dequeue ::
  "nat \<Rightarrow> 'p job_queue \<Rightarrow> (py_error + 'p job_dict option) \<times> 'p job_queue" where
  "dequeue idx q =
     (let data = contents q; js = get_queue data in
      if js = [] then (Inr None, q)
      else if \<not> idx < length js then (Inl (IndexError ''pop index out of range''), q)
      else
        let job = normalise_job (js ! idx);
            infl = AList.update (job_id job) job (get_inflight data);
            data' = data\<lparr>queue := Some (take idx js @ drop (Suc idx) js), inflight := Some infl\<rparr>
        in (Inr (Some job), save data' q))"

definition ack :: "string \<Rightarrow> 'p job_queue \<Rightarrow> bool \<times> 'p job_queue" where
  "ack jid q =
     (let data = contents q in
      if has_key jid (get_inflight data)
      then (True, save (data\<lparr>inflight := Some (AList.delete jid (get_inflight data))\<rparr>) q)
      else (False, q))"

definition nack ::
  "string \<Rightarrow> bool \<Rightarrow> int \<Rightarrow> real \<Rightarrow> 'p job_queue \<Rightarrow> (py_error + bool) \<times> 'p job_queue" where
  "nack jid requeue backoff_seconds now q =
     (let data = contents q; infl = get_inflight data in
      case map_of infl jid of
        None \<Rightarrow> (Inr False, q)
      | Some job \<Rightarrow>
          let infl' = AList.delete jid infl in
          if requeue then
            (let job' = job\<lparr>attempts := Some ((case attempts job of None \<Rightarrow> 0 | Some a \<Rightarrow> a) + 1),
                             enqueued_at := now + real_of_int (max 0 backoff_seconds)\<rparr>
             in case queue data of
                  None \<Rightarrow> (Inl (KeyError ''queue''), q)
                | Some js \<Rightarrow>
                    (Inr True, save (data\<lparr>queue := Some (js @ [job']), inflight := Some infl'\<rparr>) q))
          else (Inr True, save (data\<lparr>inflight := Some infl'\<rparr>) q))"

definition size_jq :: "'p job_queue \<Rightarrow> nat \<times> nat" where
  "size_jq q = (length (get_queue (contents q)), length (get_inflight (contents q)))"

section \<open>A concrete scenario\<close>

text \<open>
  The inputs at which the closed statements about the worker are evaluated: a fresh
  \<^verbatim>\<open>accounts.db\<close> on which the pool has run its \<^verbatim>\<open>_init_schema\<close>, one account seeded with
  \<^verbatim>\<open>add_account\<close> and leased at the time 100, worker 0 with the job \<^verbatim>\<open>j1\<close> on the subreddit
  \<^verbatim>\<open>all\<close>, the default knobs, an entity decoder that returns the entity as its id, and the
  clock readings 100 to 105.
\<close>

definition demo_cred :: account_credential where
  "demo_cred = \<lparr>cred_client_id = ''cid'', cred_client_secret = ''secret'',
                 cred_username = ''dummy_user'', cred_password = ''dummy_pass''\<rparr>"

definition demo_db :: accounts_db where
  "demo_db =
     (case exec_accounts (\<lambda>t. snd (select_and_mark 100 (add_account ''acct-1'' demo_cred t)))
             (init_schema new_db) of
        Inl err \<Rightarrow> new_db
      | Inr d \<Rightarrow> d)"

definition demo_world :: "(string, string) world" where
  "demo_world = \<lparr>db = demo_db, job_state = Map.empty, files = Map.empty\<rparr>"

definition demo_ctx :: "(string, string, string) job_ctx" where
  "demo_ctx =
     \<lparr>ctx_worker = ''0'', lease_account_id = ''acct-1'', ctx_jid = ''j1'', ctx_subreddit = ''all'',
      job_state_path = ''job_state.json'', tmp_path = ''job_state.tmp'',
      ctx_decode = (\<lambda>e. Inr (Some e)), pool_cooldown_seconds = 60, ctx_knobs = orch_defaults,
      empty_range_text = ''empty range''\<rparr>"

definition demo_inputs :: "py_error + string list \<Rightarrow> string run_inputs" where
  "demo_inputs outcome =
     \<lparr>scrape_result = outcome, rand_below = 7, t_start = 100, t_mark = 101, t_end = 102,
      t_release = 103, t_cooldown = 104, t_error = 105\<rparr>"

section \<open>Properties of the account table\<close>

lemma find_filter_neg: "find P (filter (\<lambda>x. \<not> P x) xs) = None"
  by (induction xs) auto

lemma find_append_if:
  "find P (xs @ ys) = (case find P xs of None \<Rightarrow> find P ys | Some x \<Rightarrow> Some x)"
  by (induction xs) auto

lemma find_account_id: "find_account aid tbl = Some r \<Longrightarrow> account_id r = aid"
  by (auto simp: find_account_def find_Some_iff)

lemma find_account_add:
  "find_account aid (add_account aid cred tbl) = Some (last (add_account aid cred tbl))"
  by (simp add: find_account_def add_account_def Let_def find_append_if find_filter_neg)

lemma filter_add_account:
  "filter (\<lambda>x. account_id x \<noteq> aid) (add_account aid cred tbl)
     = filter (\<lambda>x. account_id x \<noteq> aid) tbl"
  by (simp add: add_account_def Let_def)

lemma add_account_twice:
  "add_account aid cred (add_account aid cred tbl) = add_account aid cred tbl"
proof -
  have f: "find_account aid (add_account aid cred tbl) = Some (last (add_account aid cred tbl))"
    by (rule find_account_add)
  show ?thesis
    apply (subst (1) add_account_def)
    apply (simp only: f Let_def option.case filter_add_account)
    apply (simp add: add_account_def Let_def)
    done
qed

lemma add_account_existing:
  assumes "find_account aid tbl = Some r"
  shows "find_account aid (add_account aid cred tbl) =
     Some (r\<lparr>client_id := cred_client_id cred, client_secret := cred_client_secret cred,
             username := cred_username cred, password := cred_password cred\<rparr>)"
  using assms find_account_id[OF assms]
  by (simp add: find_account_add) (simp add: add_account_def Let_def)

text \<open>
  C9. When a row with the account id exists, \<^verbatim>\<open>add_account(id, cred)\<close> leaves under that id
  the existing row with only \<^verbatim>\<open>client_id\<close>, \<^verbatim>\<open>client_secret\<close>, \<^verbatim>\<open>username\<close> and \<^verbatim>\<open>password\<close>
  replaced: \<^verbatim>\<open>status\<close>, \<^verbatim>\<open>cooldown_until\<close>, \<^verbatim>\<open>fail_count\<close>, \<^verbatim>\<open>last_error\<close> and \<^verbatim>\<open>proxy_id\<close>
  keep their values. The rows of other accounts are untouched, and calling \<^verbatim>\<open>add_account\<close>
  twice with the same arguments leaves the same table as calling it once.
\<close>

theorem add_account_preserves_state:
  assumes "find_account aid tbl = Some r"
  shows "find_account aid (add_account aid cred tbl) =
           Some (r\<lparr>client_id := cred_client_id cred, client_secret := cred_client_secret cred,
                   username := cred_username cred, password := cred_password cred\<rparr>)
       \<and> filter (\<lambda>x. account_id x \<noteq> aid) (add_account aid cred tbl)
           = filter (\<lambda>x. account_id x \<noteq> aid) tbl
       \<and> add_account aid cred (add_account aid cred tbl) = add_account aid cred tbl"
  using add_account_existing[OF assms] filter_add_account add_account_twice by blast

theorem add_account_preserves_state_witness:
  "find_account ''acct-1''
     (add_account ''acct-1''
        \<lparr>cred_client_id = ''id2'', cred_client_secret = ''s2'', cred_username = ''u2'',
          cred_password = ''p2''\<rparr>
        [\<lparr>account_id = ''acct-1'', client_id = ''id1'', client_secret = ''s1'', username = ''u1'',
           password = ''p1'', status = ''quarantine'', cooldown_until = 50, fail_count = 3,
           last_error = Some ''auth'', proxy_id = Some ''px''\<rparr>])
   = Some \<lparr>account_id = ''acct-1'', client_id = ''id2'', client_secret = ''s2'', username = ''u2'',
           password = ''p2'', status = ''quarantine'', cooldown_until = 50, fail_count = 3,
           last_error = Some ''auth'', proxy_id = Some ''px''\<rparr>"
proof -
  let ?r = "\<lparr>account_id = ''acct-1'', client_id = ''id1'', client_secret = ''s1'', username = ''u1'',
           password = ''p1'', status = ''quarantine'', cooldown_until = 50, fail_count = 3,
           last_error = Some ''auth'', proxy_id = Some ''px''\<rparr>"
  have h: "find_account ''acct-1'' [?r] = Some ?r"
    by (simp add: find_account_def)
  from add_account_preserves_state[OF h] show ?thesis by simp
qed

section \<open>Properties of the writes to the account table\<close>

lemma find_update_where:
  assumes "\<And>x. P x \<Longrightarrow> P (f x)"
  shows "find P (map (\<lambda>x. if P x then f x else x) xs) = map_option f (find P xs)"
  using assms by (induction xs) auto

lemma filter_update_where:
  assumes "\<And>x. P x \<Longrightarrow> P (f x)"
  shows "filter (\<lambda>x. \<not> P x) (map (\<lambda>x. if P x then f x else x) xs) = filter (\<lambda>x. \<not> P x) xs"
  using assms by (induction xs) auto

lemma find_account_update_where:
  assumes "\<And>x. account_id (f x) = account_id x"
  shows "find_account aid (update_where (\<lambda>x. account_id x = aid) f tbl)
           = map_option f (find_account aid tbl)"
  unfolding find_account_def update_where_def
  by (rule find_update_where) (simp add: assms)

lemma others_update_where:
  assumes "\<And>x. account_id (f x) = account_id x"
  shows "filter (\<lambda>x. account_id x \<noteq> aid) (update_where (\<lambda>x. account_id x = aid) f tbl)
     = filter (\<lambda>x. account_id x \<noteq> aid) tbl"
  unfolding update_where_def by (rule filter_update_where) (simp add: assms)

lemma select_ready_eligible:
  assumes "select_ready now tbl = Some x"
  shows "x \<in> set tbl \<and> eligible now x"
proof -
  from assms obtain xs where "sort_key fail_count (filter (eligible now) tbl) = x # xs"
    by (auto simp: select_ready_def split: list.splits)
  then have "x \<in> set (sort_key fail_count (filter (eligible now) tbl))"
    by simp
  then show ?thesis by simp
qed

lemma select_and_mark_cases:
  "(case select_and_mark now tbl of
      (None, t) \<Rightarrow> t = tbl
    | (Some x, t) \<Rightarrow> x \<in> set tbl \<and> eligible now x \<and> t = mark_leased (account_id x) tbl)"
proof (cases "select_ready now tbl")
  case None
  then show ?thesis by (simp add: select_and_mark_def)
next
  case (Some x)
  with select_ready_eligible[OF Some] show ?thesis by (simp add: select_and_mark_def)
qed

text \<open>
  C3. The code does not do what the claim says: none of the four statements tests the
  status in its \<^verbatim>\<open>WHERE\<close> clause. The account \<^verbatim>\<open>a\<close> is ready at the time 5 and so is in
  the health manager's snapshot; the pool leases it; the probe succeeds and, at the
  time 10, the write of \<^verbatim>\<open>_update_on_success\<close> sets the leased row back to \<open>ready\<close>; at
  the time 11 the pool leases the same account again, while the first lease is live.
  In the same way the cooldown write and the quarantine write of the health manager
  overwrite a row that is \<open>leased\<close>, and the lease flip of the pool overwrites a row
  that is in \<open>quarantine\<close>.
\<close>

theorem health_write_overwrites_lease:
  "map status (to_check 5
      [\<lparr>account_id = ''a'', client_id = ''i'', client_secret = ''s'', username = ''u'',
        password = ''p'', status = ''ready'', cooldown_until = 0, fail_count = 2,
        last_error = None, proxy_id = None\<rparr>]) = [''ready'']
   \<and> map status (snd (select_and_mark 5
      [\<lparr>account_id = ''a'', client_id = ''i'', client_secret = ''s'', username = ''u'',
        password = ''p'', status = ''ready'', cooldown_until = 0, fail_count = 2,
        last_error = None, proxy_id = None\<rparr>])) = [''leased'']
   \<and> map status (check_one hm_defaults 10
       \<lparr>account_id = ''a'', client_id = ''i'', client_secret = ''s'', username = ''u'',
        password = ''p'', status = ''ready'', cooldown_until = 0, fail_count = 2,
        last_error = None, proxy_id = None\<rparr> ProbeOk
      (snd (select_and_mark 5
      [\<lparr>account_id = ''a'', client_id = ''i'', client_secret = ''s'', username = ''u'',
        password = ''p'', status = ''ready'', cooldown_until = 0, fail_count = 2,
        last_error = None, proxy_id = None\<rparr>]))) = [''ready'']
   \<and> map_option account_id (fst (select_and_mark 11 (check_one hm_defaults 10
       \<lparr>account_id = ''a'', client_id = ''i'', client_secret = ''s'', username = ''u'',
        password = ''p'', status = ''ready'', cooldown_until = 0, fail_count = 2,
        last_error = None, proxy_id = None\<rparr> ProbeOk
      (snd (select_and_mark 5
      [\<lparr>account_id = ''a'', client_id = ''i'', client_secret = ''s'', username = ''u'',
        password = ''p'', status = ''ready'', cooldown_until = 0, fail_count = 2,
        last_error = None, proxy_id = None\<rparr>]))))) = Some ''a''
   \<and> map status (update_on_success 10 ''a''
      [\<lparr>account_id = ''a'', client_id = ''i'', client_secret = ''s'', username = ''u'',
        password = ''p'', status = ''leased'', cooldown_until = 0, fail_count = 2,
        last_error = None, proxy_id = None\<rparr>]) = [''ready'']
   \<and> map status (hm_cooldown 10 ''a'' 60 ''network''
      [\<lparr>account_id = ''a'', client_id = ''i'', client_secret = ''s'', username = ''u'',
        password = ''p'', status = ''leased'', cooldown_until = 0, fail_count = 2,
        last_error = None, proxy_id = None\<rparr>]) = [''ready'']
   \<and> map status (hm_quarantine ''a'' ''auth''
      [\<lparr>account_id = ''a'', client_id = ''i'', client_secret = ''s'', username = ''u'',
        password = ''p'', status = ''leased'', cooldown_until = 0, fail_count = 2,
        last_error = None, proxy_id = None\<rparr>]) = [''quarantine'']
   \<and> map status (mark_leased ''a''
      [\<lparr>account_id = ''a'', client_id = ''i'', client_secret = ''s'', username = ''u'',
        password = ''p'', status = ''quarantine'', cooldown_until = 0, fail_count = 2,
        last_error = Some ''auth'', proxy_id = None\<rparr>]) = [''leased'']"
  by (simp add: update_on_success_def hm_cooldown_def hm_quarantine_def mark_leased_def
      update_where_def to_check_def select_and_mark_def select_ready_def eligible_def
      check_one_def health_probe_def)

section \<open>Properties of the classification of error messages\<close>













section \<open>Properties of the autoscaling supervisor\<close>

lemma target_workers_div: "0 \<le> n \<Longrightarrow> target_workers n = (3 * n) div 4"
proof -
  assume n: "0 \<le> n"
  have "real_of_int n * 0.75 = real_of_int (3 * n) / real_of_int 4" by simp
  then have "\<lfloor>real_of_int n * 0.75\<rfloor> = (3 * n) div 4"
    by (simp only: floor_divide_of_int_eq)
  moreover have "0 \<le> (3 * n) div 4" using n by simp
  ultimately show ?thesis using n by (simp add: target_workers_def py_int_def)
qed

lemma target_workers_nonneg: "0 \<le> target_workers n"
  by (simp add: target_workers_def)

lemma ready_of_report:
  "(case health_report tbl ''ready'' of None \<Rightarrow> 0 | Some n \<Rightarrow> n)
     = int (length (filter (\<lambda>r. status r = ''ready'') tbl))"
  by (simp add: health_report_def Let_def)

lemma tick_target_report:
  "tick_target (Inr (health_report tbl))
     = (3 * int (length (filter (\<lambda>r. status r = ''ready'') tbl))) div 4"
  unfolding tick_target_def Let_def sum.case ready_of_report
  by (rule target_workers_div) simp

lemma tick_target_failed: "tick_target (Inl e) = 0"
  using target_workers_div[of 0] by (simp add: tick_target_def)

lemma tick_target_nonneg: "0 \<le> tick_target report"
  by (simp add: tick_target_def Let_def target_workers_nonneg)

lemma cancel_oldest_eq:
  "cancel_oldest reraises n ws =
     (if list_all (\<lambda>w. \<not> reraises w) (take n ws) then (False, drop n ws)
      else (True, dropWhile (\<lambda>w. \<not> reraises w) ws))"
  by (induction reraises n ws rule: cancel_oldest.induct) auto

lemma registry_overwritten:
  "(reg :: registry)\<lparr>workers := a, next_worker_id := b\<rparr> = \<lparr>workers = a, next_worker_id = b\<rparr>"
  by (cases reg) simp

lemma registry_workers_upd:
  "(reg :: registry)\<lparr>workers := a\<rparr> = \<lparr>workers = a, next_worker_id = next_worker_id reg\<rparr>"
  by (cases reg) simp

lemma registry_same:
  "(reg :: registry) = \<lparr>workers = workers reg, next_worker_id = next_worker_id reg\<rparr>"
  by (cases reg) simp

lemma reconcile_eq:
  assumes "0 \<le> target"
  shows "reconcile reraises target reg =
     (if int (length (workers reg)) < target then
        (False, \<lparr>workers = workers reg @ [next_worker_id reg ..<
                               next_worker_id reg + (nat target - length (workers reg))],
                 next_worker_id = next_worker_id reg + (nat target - length (workers reg))\<rparr>)
      else if list_all (\<lambda>w. \<not> reraises w) (take (length (workers reg) - nat target) (workers reg))
      then (False, \<lparr>workers = drop (length (workers reg) - nat target) (workers reg),
                    next_worker_id = next_worker_id reg\<rparr>)
      else (True, \<lparr>workers = dropWhile (\<lambda>w. \<not> reraises w) (workers reg),
                   next_worker_id = next_worker_id reg\<rparr>))"
proof -
  have n1: "nat (target - int (length (workers reg))) = nat target - length (workers reg)"
    using assms by simp
  have n2: "nat (int (length (workers reg)) - target) = length (workers reg) - nat target"
    using assms by simp
  show ?thesis
  proof (cases "int (length (workers reg)) < target")
    case True
    then show ?thesis
      unfolding reconcile_def Let_def n1 registry_overwritten by simp
  next
    case False
    show ?thesis
    proof (cases "target < int (length (workers reg))")
      case True
      with False show ?thesis
        unfolding reconcile_def Let_def n2 cancel_oldest_eq registry_workers_upd by simp
    next
      case eq: False
      with False have z: "length (workers reg) - nat target = 0" using assms by simp
      from False eq show ?thesis
        unfolding reconcile_def Let_def z using registry_same[of reg] by simp
    qed
  qed
qed

text \<open>
  C6, as the claim states it, fails. The count that sizes the fleet is the number of rows
  with \<open>status = ready\<close>, cooling or not: with two ready accounts that are both cooling
  at the time 100, no account is eligible, yet the target is \<open>\<lfloor>0.75 * 2\<rfloor> = 1\<close> and one
  worker is spawned. When \<^verbatim>\<open>health_report\<close> raises, the target is 0 and both registered
  workers are cancelled. When awaiting the cancelled worker 1 re-raises
  \<^verbatim>\<open>CancelledError\<close>, the supervisor leaves its loop with the workers 1 and 2 registered
  although the target is 0. And a worker that is done is reaped, which leaves two
  workers where the target is 3.
\<close>

theorem target_counts_cooling_accounts:
  "length (filter (eligible 100)
      [\<lparr>account_id = ''a'', client_id = ''i'', client_secret = ''s'', username = ''u'',
        password = ''p'', status = ''ready'', cooldown_until = 160, fail_count = 0,
        last_error = None, proxy_id = None\<rparr>,
       \<lparr>account_id = ''b'', client_id = ''i'', client_secret = ''s'', username = ''u'',
        password = ''p'', status = ''ready'', cooldown_until = 160, fail_count = 0,
        last_error = None, proxy_id = None\<rparr>]) = 0
   \<and> orchestrate_tick (Inr (health_report
      [\<lparr>account_id = ''a'', client_id = ''i'', client_secret = ''s'', username = ''u'',
        password = ''p'', status = ''ready'', cooldown_until = 160, fail_count = 0,
        last_error = None, proxy_id = None\<rparr>,
       \<lparr>account_id = ''b'', client_id = ''i'', client_secret = ''s'', username = ''u'',
        password = ''p'', status = ''ready'', cooldown_until = 160, fail_count = 0,
        last_error = None, proxy_id = None\<rparr>])) (\<lambda>wid. False) (\<lambda>wid. False)
      \<lparr>workers = [], next_worker_id = 0\<rparr>
     = (False, \<lparr>workers = [0], next_worker_id = 1\<rparr>)
   \<and> orchestrate_tick (Inl (OperationalError ''database is locked'')) (\<lambda>wid. False) (\<lambda>wid. False)
      \<lparr>workers = [0, 1], next_worker_id = 2\<rparr>
     = (False, \<lparr>workers = [], next_worker_id = 2\<rparr>)
   \<and> orchestrate_tick (Inr (\<lambda>s. None)) (\<lambda>wid. wid = 1) (\<lambda>wid. False)
      \<lparr>workers = [0, 1, 2], next_worker_id = 3\<rparr>
     = (True, \<lparr>workers = [1, 2], next_worker_id = 3\<rparr>)
   \<and> orchestrate_tick (Inr [''ready'' \<mapsto> 4]) (\<lambda>wid. False) (\<lambda>wid. wid = 1)
      \<lparr>workers = [0, 1, 2], next_worker_id = 3\<rparr>
     = (False, \<lparr>workers = [0, 2], next_worker_id = 3\<rparr>)"
  by (simp add: eligible_def orchestrate_tick_def tick_target_def health_report_def
      target_workers_def py_int_def reconcile_def reap_def eval_nat_numeral Let_def)

text \<open>
  C6, amended. On every tick the target is \<open>\<lfloor>0.75 * n\<rfloor>\<close>, where \<open>n\<close> is the number of
  account rows with \<open>status = ready\<close>, those still cooling included, and it is 0 when
  \<^verbatim>\<open>health_report\<close> raises; with 8 ready accounts it is 6. When the registry holds fewer
  workers than the target, the supervisor spawns the missing ones, with the next fresh
  ids, at the end of the registry. Otherwise it cancels the excess workers, oldest
  first: if awaiting none of them re-raises \<^verbatim>\<open>CancelledError\<close>, exactly the target number
  of workers, the youngest, stays registered; if awaiting one does, the supervisor
  leaves its loop with that worker and all later ones registered. Unless it has left
  its loop, it then removes from the registry the workers that are done.
\<close>

theorem supervisor_tick:
  "tick_target (Inr (health_report tbl))
     = (3 * int (length (filter (\<lambda>r. status r = ''ready'') tbl))) div 4
   \<and> tick_target (Inl e) = 0
   \<and> target_workers 8 = 6
   \<and> orchestrate_tick report reraises is_done reg =
       (if int (length (workers reg)) < tick_target report then
          (False,
           \<lparr>workers = filter (\<lambda>w. \<not> is_done w)
                (workers reg @ [next_worker_id reg ..<
                   next_worker_id reg + (nat (tick_target report) - length (workers reg))]),
            next_worker_id = next_worker_id reg + (nat (tick_target report) - length (workers reg))\<rparr>)
        else if list_all (\<lambda>w. \<not> reraises w)
                  (take (length (workers reg) - nat (tick_target report)) (workers reg))
        then
          (False,
           \<lparr>workers = filter (\<lambda>w. \<not> is_done w)
                (drop (length (workers reg) - nat (tick_target report)) (workers reg)),
            next_worker_id = next_worker_id reg\<rparr>)
        else
          (True,
           \<lparr>workers = dropWhile (\<lambda>w. \<not> reraises w) (workers reg),
            next_worker_id = next_worker_id reg\<rparr>))
   \<and> (fst (reconcile reraises (tick_target report) reg)
        \<or> int (length (workers (snd (reconcile reraises (tick_target report) reg))))
             = tick_target report)"
proof -
  have t8: "target_workers 8 = 6"
    using target_workers_div[of 8] by simp
  note r = reconcile_eq[OF tick_target_nonneg, of reraises report reg]
  have tick: "orchestrate_tick report reraises is_done reg =
       (if int (length (workers reg)) < tick_target report then
          (False,
           \<lparr>workers = filter (\<lambda>w. \<not> is_done w)
                (workers reg @ [next_worker_id reg ..<
                   next_worker_id reg + (nat (tick_target report) - length (workers reg))]),
            next_worker_id = next_worker_id reg + (nat (tick_target report) - length (workers reg))\<rparr>)
        else if list_all (\<lambda>w. \<not> reraises w)
                  (take (length (workers reg) - nat (tick_target report)) (workers reg))
        then
          (False,
           \<lparr>workers = filter (\<lambda>w. \<not> is_done w)
                (drop (length (workers reg) - nat (tick_target report)) (workers reg)),
            next_worker_id = next_worker_id reg\<rparr>)
        else
          (True,
           \<lparr>workers = dropWhile (\<lambda>w. \<not> reraises w) (workers reg),
            next_worker_id = next_worker_id reg\<rparr>))"
    unfolding orchestrate_tick_def r by (simp add: reap_def)
  have len: "fst (reconcile reraises (tick_target report) reg)
        \<or> int (length (workers (snd (reconcile reraises (tick_target report) reg))))
             = tick_target report"
    unfolding r using tick_target_nonneg[of report] by auto
  from tick_target_report tick_target_failed t8 tick len show ?thesis
    by (intro conjI)
qed

section \<open>Properties of a worker's job\<close>

lemma demo_db_eq:
  "demo_db = \<lparr>accounts = Some [\<lparr>account_id = ''acct-1'', client_id = ''cid'',
        client_secret = ''secret'', username = ''dummy_user'', password = ''dummy_pass'',
        status = ''leased'', cooldown_until = 0, fail_count = 0, last_error = None,
        proxy_id = None\<rparr>], proxies = Some [], checkpoints = None\<rparr>"
  by (simp add: demo_db_def exec_accounts_def init_schema_def new_db_def add_account_def
      find_account_def demo_cred_def select_and_mark_def select_ready_def eligible_def
      mark_leased_def update_where_def Let_def)

lemma randint_range:
  assumes "a \<le> b"
  shows "\<exists>u. randint txt a b s = Inr u \<and> a \<le> u \<and> u \<le> b"
proof -
  have pos: "0 < nat (b - a + 1)" using assms by simp
  have "s mod nat (b - a + 1) < nat (b - a + 1)" using pos by (rule mod_less_divisor)
  then have "int (s mod nat (b - a + 1)) < b - a + 1" using assms by linarith
  then show ?thesis using assms by (simp add: randint_def)
qed

lemma randint_onto:
  assumes "a \<le> u" and "u \<le> b"
  shows "randint txt a b (nat (u - a)) = Inr u"
proof -
  have "nat (u - a) < nat (b - a + 1)" using assms by simp
  then have "nat (u - a) mod nat (b - a + 1) = nat (u - a)" by simp
  then show ?thesis using assms by (simp add: randint_def)
qed











lemma on_error_auth:
  assumes "\<not> looks_rate_limited msg" and "looks_auth_ban msg" and "accounts (db w) = Some tbl"
  shows "accounts (db (on_error ctx inp msg w))
           = Some (release (pool_cooldown_seconds ctx) (t_release inp) (lease_account_id ctx) False
                     (quarantine (lease_account_id ctx) ''auth'' tbl))"
  using assms
  by (simp add: on_error_def exec_accounts_def try_upsert_def upsert_def Let_def
      split: option.splits)

lemma on_error_rate_limited:
  assumes "looks_rate_limited msg" and "accounts (db w) = Some tbl"
  shows "accounts (db (on_error ctx inp msg w))
           = Some (release (pool_cooldown_seconds ctx) (t_release inp) (lease_account_id ctx) False
                     (cooldown (t_cooldown inp) (lease_account_id ctx) 120 (Some ''rate-limit'') tbl))"
  using assms
  by (simp add: on_error_def exec_accounts_def try_upsert_def upsert_def Let_def
      split: option.splits)

lemma release_after_quarantine:
  assumes "find_account aid tbl = Some r"
  shows "find_account aid (release cs now aid False (quarantine aid reason tbl))
           = Some (r\<lparr>status := ''ready'', cooldown_until := now + real_of_int cs,
                     fail_count := fail_count r + 1, last_error := Some reason\<rparr>)"
  using assms
  by (simp add: release_def quarantine_def find_account_update_where)

text \<open>
  C1. The code does not do what the claim says. At the scenario's input, where the
  scrape of the leased account \<^verbatim>\<open>acct-1\<close> raises \<^verbatim>\<open>received 403 HTTP response\<close>, the handler
  calls \<^verbatim>\<open>pool.quarantine(lease, "auth")\<close> and then \<^verbatim>\<open>lease.release(success=False)\<close>, and the
  account row ends with \<open>status = ready\<close>, \<open>last_error = auth\<close>, one more failure and a
  cooldown of 60 s: two transitions are applied and the second undoes the quarantine.
  A release is applied again when it is repeated: two failed releases of one lease count
  two failures.
\<close>

theorem auth_failure_ends_ready:
  "map_option (map (\<lambda>r. (account_id r, status r, last_error r, fail_count r, cooldown_until r)))
     (accounts (db (worker_job demo_ctx
        (demo_inputs (Inl (OtherError ''received 403 HTTP response''))) demo_world)))
   = Some [(''acct-1'', ''ready'', Some ''auth'', 1, 163)]
   \<and> worker_error_class ''received 403 HTTP response'' = ''auth''
   \<and> map_option (map fail_count) (accounts demo_db) = Some [0]
   \<and> map_option (map fail_count \<circ> release 60 103 ''acct-1'' False) (accounts demo_db) = Some [1]
   \<and> map_option (map fail_count \<circ> release 60 103 ''acct-1'' False \<circ> release 60 103 ''acct-1'' False)
        (accounts demo_db) = Some [2]"
proof -
  have c: "worker_error_class ''received 403 HTTP response'' = ''auth''"
    by (simp add: worker_error_class_def looks_rate_limited_def looks_auth_ban_def lower_def
        lower_char_def sublist_code Let_def)
  then have nr: "\<not> looks_rate_limited ''received 403 HTTP response''"
    and au: "looks_auth_ban ''received 403 HTTP response''"
    by (simp_all add: worker_error_class_def split: if_splits)
  have w1: "try_upsert ''0'' (Some ''acct-1'') (Some ''all'') None None 100 demo_db = demo_db"
    by (simp add: try_upsert_def upsert_def demo_db_eq)
  have wj: "worker_job demo_ctx (demo_inputs (Inl (OtherError ''received 403 HTTP response''))) demo_world
      = on_error demo_ctx (demo_inputs (Inl (OtherError ''received 403 HTTP response'')))
          ''received 403 HTTP response'' demo_world"
    by (simp add: worker_job_def demo_inputs_def demo_ctx_def demo_world_def w1 Let_def)
  have a: "accounts (db demo_world) = Some [\<lparr>account_id = ''acct-1'', client_id = ''cid'',
        client_secret = ''secret'', username = ''dummy_user'', password = ''dummy_pass'',
        status = ''leased'', cooldown_until = 0, fail_count = 0, last_error = None,
        proxy_id = None\<rparr>]"
    by (simp add: demo_world_def demo_db_eq)
  have r: "map_option (map (\<lambda>r. (account_id r, status r, last_error r, fail_count r, cooldown_until r)))
     (accounts (db (worker_job demo_ctx
        (demo_inputs (Inl (OtherError ''received 403 HTTP response''))) demo_world)))
   = Some [(''acct-1'', ''ready'', Some ''auth'', 1, 163)]"
    unfolding wj on_error_auth[OF nr au a]
    by (simp add: release_def quarantine_def update_where_def demo_ctx_def demo_inputs_def)
  have d: "map_option (map fail_count) (accounts demo_db) = Some [0]"
    "map_option (map fail_count \<circ> release 60 103 ''acct-1'' False) (accounts demo_db) = Some [1]"
    "map_option (map fail_count \<circ> release 60 103 ''acct-1'' False \<circ> release 60 103 ''acct-1'' False)
        (accounts demo_db) = Some [2]"
    by (simp_all add: demo_db_eq release_def update_where_def)
  from r c d show ?thesis by (intro conjI)
qed

section \<open>Properties of the worker checkpoints\<close>

lemma init_schema_checkpoints: "checkpoints (init_schema d) = checkpoints d"
  by (simp add: init_schema_def)

lemma exec_accounts_checkpoints:
  "exec_accounts stmt d = Inr d' \<Longrightarrow> checkpoints d' = checkpoints d"
  by (auto simp: exec_accounts_def split: option.splits)

lemma try_upsert_no_table: "checkpoints d = None \<Longrightarrow> try_upsert wid a s lp lc ts d = d"
  by (simp add: try_upsert_def upsert_def)

lemma upsert_then_get:
  assumes "checkpoints d = Some t"
  shows "get wid (try_upsert wid a s lp lc ts d)
           = Inr (Some \<lparr>worker_id = wid, cp_account_id = a, last_subreddit = s, last_post_id = lp,
                         last_comment_id = lc, cp_updated_at = ts\<rparr>)"
proof (cases "find (\<lambda>r. worker_id r = wid) t")
  case None
  with assms show ?thesis
    by (simp add: try_upsert_def upsert_def get_def find_append_if Let_def)
next
  case (Some r)
  have "find (\<lambda>r. worker_id r = wid) (map (\<lambda>r. if worker_id r = wid then x else r) t) = Some x"
    if "worker_id x = wid" for x
    using Some that by (induction t) (auto split: if_splits)
  with assms Some show ?thesis
    by (simp add: try_upsert_def upsert_def get_def Let_def)
qed

lemma demo_last_ids:
  "extract_last_ids (\<lambda>e. Inr (Some e)) [''t3_abc'', ''t1_def''] = (Some ''t3_abc'', Some ''t1_def'')"
  by (simp add: extract_last_ids_def last_ids_step_def Let_def)

text \<open>
  C4. The code does not do what the claim says. \<^verbatim>\<open>AccountPool._init_schema\<close> creates the
  tables \<^verbatim>\<open>accounts\<close> and \<^verbatim>\<open>proxies\<close> only, and \<^verbatim>\<open>WorkerCheckpointStore\<close> creates none. In the
  scenario's database the table \<^verbatim>\<open>checkpoints\<close> does not exist: \<^verbatim>\<open>upsert\<close> raises
  \<^verbatim>\<open>OperationalError\<close>, which the worker swallows, and after a successful job as after a
  failed one \<^verbatim>\<open>get\<close> raises as well instead of returning the row.
\<close>

theorem checkpoint_writes_fail:
  "checkpoints (init_schema new_db) = None
   \<and> upsert ''0'' (Some ''acct-1'') (Some ''all'') None None 100 demo_db
       = Inl (OperationalError ''no such table: checkpoints'')
   \<and> get ''0'' (db (worker_job demo_ctx (demo_inputs (Inr [''t3_abc'', ''t1_def''])) demo_world))
       = Inl (OperationalError ''no such table: checkpoints'')
   \<and> get ''0'' (db (worker_job demo_ctx (demo_inputs (Inl (OtherError ''connection reset'')))
                      demo_world))
       = Inl (OperationalError ''no such table: checkpoints'')"
proof -
  have n: "checkpoints (init_schema new_db) = None"
    by (simp add: init_schema_def new_db_def)
  have u: "upsert ''0'' (Some ''acct-1'') (Some ''all'') None None 100 demo_db
       = Inl (OperationalError ''no such table: checkpoints'')"
    by (simp add: upsert_def demo_db_eq)
  have t: "try_upsert wid a s lp lc ts demo_db = demo_db" for wid a s lp lc ts
    by (rule try_upsert_no_table) (simp add: demo_db_eq)
  have g1: "get ''0'' (db (worker_job demo_ctx (demo_inputs (Inr [''t3_abc'', ''t1_def''])) demo_world))
       = Inl (OperationalError ''no such table: checkpoints'')"
    by (simp add: worker_job_def demo_inputs_def demo_ctx_def demo_world_def t
        mark_job_cooldown_def job_cooldown_window_def randint_def orch_defaults_def
        exec_accounts_def get_def demo_db_eq try_upsert_def upsert_def Let_def)
  have g2: "get ''0'' (db (worker_job demo_ctx (demo_inputs (Inl (OtherError ''connection reset'')))
                      demo_world))
       = Inl (OperationalError ''no such table: checkpoints'')"
    by (simp add: worker_job_def on_error_def demo_inputs_def demo_ctx_def demo_world_def
        exec_accounts_def get_def demo_db_eq try_upsert_def upsert_def Let_def)
  from n u g1 g2 show ?thesis by (intro conjI)
qed

section \<open>Properties of the job queue\<close>

text \<open>
  C10. For every job id that is not a key of the inflight map, \<^verbatim>\<open>ack\<close> and \<^verbatim>\<open>nack\<close>
  both return \<open>False\<close> and leave the persisted file exactly as it was, without writing it:
  the queue state, including its count of writes, is returned unchanged.
\<close>

theorem ack_nack_absent_noop:
  assumes "\<not> has_key jid (get_inflight (contents q))"
  shows "ack jid q = (False, q) \<and> nack jid requeue backoff_seconds now q = (Inr False, q)"
  using assms by (simp add: ack_def nack_def has_key_def Let_def)

theorem ack_nack_absent_noop_witness:
  "\<not> has_key ''b'' (get_inflight (contents (snd (dequeue 0
        (case enqueue 5 \<lparr>job_id = ''a'', weight = 1, payload = (), attempts = Some 0, enqueued_at = 0\<rparr>
                (ensure_file None) of Inr q \<Rightarrow> q | Inl e \<Rightarrow> ensure_file None)))))
   \<and> ack ''b'' (snd (dequeue 0
        (case enqueue 5 \<lparr>job_id = ''a'', weight = 1, payload = (), attempts = Some 0, enqueued_at = 0\<rparr>
                (ensure_file None) of Inr q \<Rightarrow> q | Inl e \<Rightarrow> ensure_file None)))
     = (False, \<lparr>contents = \<lparr>queue = Some [],
                 inflight = Some [(''a'', \<lparr>job_id = ''a'', weight = 1, payload = (),
                                           attempts = Some 0, enqueued_at = 5\<rparr>)]\<rparr>,
                saves = 3\<rparr>)
   \<and> nack ''b'' True 5 9 (snd (dequeue 0
        (case enqueue 5 \<lparr>job_id = ''a'', weight = 1, payload = (), attempts = Some 0, enqueued_at = 0\<rparr>
                (ensure_file None) of Inr q \<Rightarrow> q | Inl e \<Rightarrow> ensure_file None)))
     = (Inr False, \<lparr>contents = \<lparr>queue = Some [],
                 inflight = Some [(''a'', \<lparr>job_id = ''a'', weight = 1, payload = (),
                                           attempts = Some 0, enqueued_at = 5\<rparr>)]\<rparr>,
                saves = 3\<rparr>)"
proof -
  let ?q = "\<lparr>contents = \<lparr>queue = Some [],
                 inflight = Some [(''a'', \<lparr>job_id = ''a'', weight = 1::real, payload = (),
                                           attempts = Some (0::int), enqueued_at = 5::real\<rparr>)]\<rparr>,
                saves = 3::nat\<rparr>"
  have q: "snd (dequeue 0
        (case enqueue 5 \<lparr>job_id = ''a'', weight = 1, payload = (), attempts = Some 0, enqueued_at = 0\<rparr>
                (ensure_file None) of Inr q \<Rightarrow> q | Inl e \<Rightarrow> ensure_file None)) = ?q"
    by (simp add: dequeue_def enqueue_def ensure_file_def save_def get_queue_def get_inflight_def
        normalise_job_def Let_def)
  have h: "\<not> has_key ''b'' (get_inflight (contents ?q))"
    by (simp add: has_key_def get_inflight_def)
  from ack_nack_absent_noop[OF h, of True 5 9] h show ?thesis
    unfolding q by simp
qed

section \<open>Properties of the token bucket\<close>

lemma rounding_nonneg: "rounding rnd \<Longrightarrow> 0 \<le> x \<Longrightarrow> 0 \<le> rnd x"
  unfolding rounding_def by (metis monoD)

lemma rounding_le: "rounding rnd \<Longrightarrow> x \<le> y \<Longrightarrow> rnd x \<le> rnd y"
  unfolding rounding_def by (metis monoD)

lemma rounding_id: "rounding (\<lambda>x. x)"
  by (simp add: rounding_def mono_def)

lemma refilled_bounds:
  assumes "rounding rnd" and "0 \<le> tokens r" and "0 \<le> capacity r" and "0 \<le> refill_rate r"
  shows "0 \<le> refilled rnd now r \<and> refilled rnd now r \<le> capacity r"
proof -
  have "0 \<le> refill_rate r * max 0 (rnd (now - updated_at r))"
    using assms(4) by simp
  then have "0 \<le> rnd (refill_rate r * max 0 (rnd (now - updated_at r)))"
    by (rule rounding_nonneg[OF assms(1)])
  then have "0 \<le> tokens r + rnd (refill_rate r * max 0 (rnd (now - updated_at r)))"
    using assms(2) by simp
  then have "0 \<le> rnd (tokens r + rnd (refill_rate r * max 0 (rnd (now - updated_at r))))"
    by (rule rounding_nonneg[OF assms(1)])
  then show ?thesis
    using assms(3) by (simp add: refilled_def Let_def)
qed

lemma refilled_monotone:
  assumes "rounding rnd" and "0 \<le> refill_rate r" and "t1 \<le> t2"
  shows "refilled rnd t1 r \<le> refilled rnd t2 r"
proof -
  have "rnd (t1 - updated_at r) \<le> rnd (t2 - updated_at r)"
    using assms(3) by (intro rounding_le[OF assms(1)]) simp
  then have "max 0 (rnd (t1 - updated_at r)) \<le> max 0 (rnd (t2 - updated_at r))"
    by simp
  then have "refill_rate r * max 0 (rnd (t1 - updated_at r))
               \<le> refill_rate r * max 0 (rnd (t2 - updated_at r))"
    using assms(2) by (rule mult_left_mono)
  then have "rnd (refill_rate r * max 0 (rnd (t1 - updated_at r)))
               \<le> rnd (refill_rate r * max 0 (rnd (t2 - updated_at r)))"
    by (rule rounding_le[OF assms(1)])
  then have "tokens r + rnd (refill_rate r * max 0 (rnd (t1 - updated_at r)))
               \<le> tokens r + rnd (refill_rate r * max 0 (rnd (t2 - updated_at r)))"
    by simp
  then have "rnd (tokens r + rnd (refill_rate r * max 0 (rnd (t1 - updated_at r))))
               \<le> rnd (tokens r + rnd (refill_rate r * max 0 (rnd (t2 - updated_at r))))"
    by (rule rounding_le[OF assms(1)])
  then show ?thesis
    by (simp add: refilled_def Let_def min_le_iff_disj)
qed

lemma bucket_operations_frame:
  assumes "k \<noteq> name"
  shows "ensure_bucket name cap refill now tbl k = tbl k"
    and "snd (try_acquire_once rnd name req now tbl) k = tbl k"
  using assms by (simp_all add: ensure_bucket_def try_acquire_once_def Let_def split: option.splits)

lemma attempt_on_row:
  assumes "rounding rnd" and "0 \<le> req"
    and "bucket_ok r" and "0 \<le> refill_rate r" and "is_float rnd (capacity r)"
  shows "bucket_ok (r\<lparr>tokens := (if req \<le> refilled rnd now r then rnd (refilled rnd now r - req)
                                    else refilled rnd now r),
                     updated_at := now\<rparr>)"
proof -
  from assms(3) have t: "0 \<le> tokens r" and c: "0 \<le> capacity r"
    by (simp_all add: bucket_ok_def)
  from refilled_bounds[OF assms(1) t c assms(4), of now]
  have b: "0 \<le> refilled rnd now r" "refilled rnd now r \<le> capacity r" by simp_all
  show ?thesis
  proof (cases "req \<le> refilled rnd now r")
    case True
    then have "0 \<le> rnd (refilled rnd now r - req)"
      by (intro rounding_nonneg[OF assms(1)]) simp
    moreover have "rnd (refilled rnd now r - req) \<le> rnd (capacity r)"
      using b(2) assms(2) by (intro rounding_le[OF assms(1)]) simp
    ultimately show ?thesis
      using True assms(5) by (simp add: bucket_ok_def is_float_def)
  next
    case False
    with b show ?thesis by (simp add: bucket_ok_def)
  qed
qed

text \<open>
  C7, as the claim states it, fails: the operations validate none of their parameters.
  A request of \<open>-1\<close> tokens on a bucket that is not there leaves 6 tokens in the default
  row of capacity 5; \<^verbatim>\<open>ensure_bucket\<close> with the capacity \<open>-1\<close> stores \<open>-1\<close> tokens; and in a
  bucket ensured with the refill rate \<open>-1\<close>, an unsatisfied request ten seconds later
  stores \<open>-5\<close> tokens. All the numbers are floats on which the operations are exact.
\<close>

theorem bucket_invariant_breaks:
  "map_option (\<lambda>r. (tokens r, capacity r))
     (snd (try_acquire_once (\<lambda>x. x) ''b'' (- 1) 0 Map.empty) ''b'') = Some (6, 5)
   \<and> map_option (\<lambda>r. (tokens r, capacity r))
     (ensure_bucket ''b'' (- 1) 1 0 Map.empty ''b'') = Some (- 1, - 1)
   \<and> map_option (\<lambda>r. (tokens r, capacity r))
     (snd (try_acquire_once (\<lambda>x. x) ''b'' 10 10 (ensure_bucket ''b'' 5 (- 1) 0 Map.empty)) ''b'')
       = Some (- 5, 5)"
  by (simp add: try_acquire_once_def ensure_bucket_def refilled_def Let_def)

text \<open>
  C7, amended. Let the float arithmetic round monotonically, and let zero, the default
  capacity 5 and the capacities given and stored be floats. Let the capacity and the
  refill rate given to \<^verbatim>\<open>ensure_bucket\<close> and the number of requested tokens be
  non-negative, and let the stored row, if there is one, have \<open>0 \<le> tokens \<le> capacity\<close> and
  a non-negative refill rate. Then the row stored after \<^verbatim>\<open>ensure_bucket\<close> and after one
  attempt of \<^verbatim>\<open>acquire\<close> has \<open>0 \<le> tokens \<le> capacity\<close>, and again a non-negative refill
  rate and a float as capacity. An attempt first refills to
  \<open>min(capacity, tokens + refill_rate * max(0, now - updated_at))\<close>, each operation
  rounded; it succeeds exactly when that amount covers the request, stores the amount
  less the request when it succeeds and the refilled amount when it does not, and
  stores \<open>now\<close> as \<open>updated_at\<close> in both cases, leaving capacity and refill rate as they
  were.
\<close>

theorem bucket_invariant:
  assumes "rounding rnd" and "is_float rnd 5"
    and "0 \<le> cap" and "is_float rnd cap" and "0 \<le> refill" and "0 \<le> req"
    and "case tbl name of
           None \<Rightarrow> True
         | Some r \<Rightarrow> bucket_ok r \<and> 0 \<le> refill_rate r \<and> is_float rnd (capacity r)"
  shows "(case ensure_bucket name cap refill now tbl name of
            None \<Rightarrow> False
          | Some r \<Rightarrow> bucket_ok r \<and> 0 \<le> refill_rate r \<and> is_float rnd (capacity r))
       \<and> (let row = (case tbl name of
                       None \<Rightarrow> \<lparr>capacity = 5, tokens = 5, refill_rate = 5, updated_at = now\<rparr>
                     | Some r \<Rightarrow> r);
              cur = min (capacity row)
                      (rnd (tokens row + rnd (refill_rate row * max 0 (rnd (now - updated_at row)))))
          in fst (try_acquire_once rnd name req now tbl) = (req \<le> cur)
           \<and> (case snd (try_acquire_once rnd name req now tbl) name of
                 None \<Rightarrow> False
               | Some r \<Rightarrow> bucket_ok r
                   \<and> tokens r = (if req \<le> cur then rnd (cur - req) else cur)
                   \<and> updated_at r = now
                   \<and> capacity r = capacity row \<and> refill_rate r = refill_rate row))"
proof -
  define row where "row = (case tbl name of
      None \<Rightarrow> \<lparr>capacity = 5, tokens = 5, refill_rate = 5, updated_at = now\<rparr> | Some r \<Rightarrow> r)"
  define cur where "cur = min (capacity row)
      (rnd (tokens row + rnd (refill_rate row * max 0 (rnd (now - updated_at row)))))"
  have rf: "refilled rnd now row = cur"
    by (simp add: refilled_def cur_def Let_def)
  have rok: "bucket_ok row" "0 \<le> refill_rate row" "is_float rnd (capacity row)"
    using assms(2,7) by (auto simp: row_def bucket_ok_def split: option.splits)
  have acq: "try_acquire_once rnd name req now tbl =
      (req \<le> cur, tbl(name \<mapsto> row\<lparr>tokens := (if req \<le> cur then rnd (cur - req) else cur),
                                      updated_at := now\<rparr>))"
    unfolding try_acquire_once_def row_def[symmetric] Let_def rf by simp
  have after: "bucket_ok (row\<lparr>tokens := (if req \<le> cur then rnd (cur - req) else cur),
                               updated_at := now\<rparr>)"
    using attempt_on_row[OF assms(1,6) rok, of now] unfolding rf .
  have ens: "case ensure_bucket name cap refill now tbl name of
            None \<Rightarrow> False
          | Some r \<Rightarrow> bucket_ok r \<and> 0 \<le> refill_rate r \<and> is_float rnd (capacity r)"
    using assms(3,4,5,7) by (auto simp: ensure_bucket_def bucket_ok_def split: option.splits)
  show ?thesis
    unfolding row_def[symmetric] Let_def cur_def[symmetric] acq
    using ens after by simp
qed

theorem bucket_invariant_witness:
  "fst (try_acquire_once (\<lambda>x. x) ''b'' 1 3
          [''b'' \<mapsto> \<lparr>capacity = 10, tokens = 0, refill_rate = 5, updated_at = 0\<rparr>])
   \<and> map_option tokens (snd (try_acquire_once (\<lambda>x. x) ''b'' 1 3
          [''b'' \<mapsto> \<lparr>capacity = 10, tokens = 0, refill_rate = 5, updated_at = 0\<rparr>]) ''b'') = Some 9
   \<and> (case ensure_bucket ''c'' 2 1 0
          [''b'' \<mapsto> \<lparr>capacity = 10, tokens = 0, refill_rate = 5, updated_at = 0\<rparr>] ''c'' of
         None \<Rightarrow> False | Some r \<Rightarrow> bucket_ok r)"
proof -
  let ?tbl = "[''b'' \<mapsto> \<lparr>capacity = 10, tokens = 0, refill_rate = 5, updated_at = 0\<rparr>]"
  have r: "rounding (\<lambda>x::real. x)" by (rule rounding_id)
  have f5: "is_float (\<lambda>x::real. x) 5" and f2: "is_float (\<lambda>x::real. x) 2"
    by (simp_all add: is_float_def)
  have h1: "(0::real) \<le> 2" and h2: "(0::real) \<le> 1" by simp_all
  have hb: "case ?tbl ''b'' of None \<Rightarrow> True
      | Some r \<Rightarrow> bucket_ok r \<and> 0 \<le> refill_rate r \<and> is_float (\<lambda>x. x) (capacity r)"
    by (simp add: bucket_ok_def is_float_def)
  have hc: "case ?tbl ''c'' of None \<Rightarrow> True
      | Some r \<Rightarrow> bucket_ok r \<and> 0 \<le> refill_rate r \<and> is_float (\<lambda>x. x) (capacity r)"
    by simp
  from bucket_invariant[where rnd = "\<lambda>x. x" and cap = 2 and refill = 1 and req = 1
      and tbl = ?tbl and name = "''b''" and now = 3, OF r f5 h1 f2 h2 h2 hb]
  have a: "fst (try_acquire_once (\<lambda>x. x) ''b'' 1 3 ?tbl)
         \<and> (case snd (try_acquire_once (\<lambda>x. x) ''b'' 1 3 ?tbl) ''b'' of
               None \<Rightarrow> False | Some r \<Rightarrow> tokens r = 9)"
    by (simp add: Let_def split: option.splits)
  from bucket_invariant[where rnd = "\<lambda>x. x" and cap = 2 and refill = 1 and req = 1
      and tbl = ?tbl and name = "''c''" and now = 0, OF r f5 h1 f2 h2 h2 hc]
  have e: "case ensure_bucket ''c'' 2 1 0 ?tbl ''c'' of None \<Rightarrow> False | Some r \<Rightarrow> bucket_ok r"
    by (simp split: option.splits)
  from a e show ?thesis
    by (auto split: option.splits)
qed

lemma acquire_loop_returns:
  "d - c \<le> real n / 10 \<Longrightarrow> acquire_loop rnd (Suc n) name req (Some d) c tbl \<noteq> None"
proof (induction n arbitrary: c tbl)
  case 0
  then have "d \<le> c" by simp
  then show ?case
    by (cases "try_acquire_once rnd name req c tbl") (auto split: bool.splits)
next
  case (Suc n)
  have "d - (c + 1 / 10) \<le> real n / 10" using Suc.prems by (simp add: field_simps)
  then have ih: "\<And>t. acquire_loop rnd (Suc n) name req (Some d) (c + 1 / 10) t \<noteq> None"
    by (rule Suc.IH)
  obtain b t1 where p: "try_acquire_once rnd name req c tbl = (b, t1)"
    by (cases "try_acquire_once rnd name req c tbl")
  show ?case
    by (subst acquire_loop.simps(2))
       (use p ih in \<open>auto simp del: acquire_loop.simps split: bool.splits\<close>)
qed

lemma acquire_loop_bound:
  "acquire_loop rnd n name req (Some d) c tbl = Some (ok, c', tbl') \<Longrightarrow>
     c \<le> c' \<and> (c' = c \<or> c' < d + 1 / 10) \<and> (ok \<or> d \<le> c')"
proof (induction n arbitrary: c tbl)
  case 0
  then show ?case by simp
next
  case (Suc n)
  obtain b t1 where p: "try_acquire_once rnd name req c tbl = (b, t1)"
    by (cases "try_acquire_once rnd name req c tbl")
  show ?case
  proof (cases b)
    case True
    with p Suc.prems show ?thesis by simp
  next
    case nb: False
    show ?thesis
    proof (cases "d \<le> c")
      case True
      with p nb Suc.prems show ?thesis by simp
    next
      case nd: False
      with p nb Suc.prems
      have "acquire_loop rnd n name req (Some d) (c + 1 / 10) t1 = Some (ok, c', tbl')" by simp
      from Suc.IH[OF this] nd show ?thesis by auto
    qed
  qed
qed

text \<open>
  C8, as the claim states it, fails: with a timeout of 0.15 s on a bucket that never
  refills, the attempts are made at 0, 0.1 and 0.2 s. The third attempt rewrites the row
  (\<open>updated_at = 0.2\<close>) and the call returns \<open>False\<close> at 0.2 s, after the deadline 0.15 s.
\<close>

theorem acquire_overshoots_deadline:
  "map_option (\<lambda>(ok, c, t). (ok, c, map_option updated_at (t ''b'')))
     (bucket_acquire (\<lambda>x. x) 5 ''b'' 1 (Some (3 / 20)) 0
        [''b'' \<mapsto> \<lparr>capacity = 1, tokens = 0, refill_rate = 0, updated_at = 0\<rparr>])
   = Some (False, 1 / 5, Some (1 / 5)) \<and> (0::real) + 3 / 20 < 1 / 5"
  by (simp add: bucket_acquire_def try_acquire_once_def refilled_def eval_nat_numeral Let_def)

text \<open>
  C8, amended. A call of \<^verbatim>\<open>acquire\<close> with a finite timeout \<open>t\<close> at the time \<open>clock\<close>
  returns: more than \<open>\<lceil>10 t\<rceil>\<close> iterations are never needed. It returns at the time of its
  first attempt or less than one polling interval (0.1 s) after the deadline \<open>clock + t\<close>,
  and it returns \<open>False\<close> only when the deadline has been reached. The deadline is tested
  after a failed attempt and before the sleep, so the last attempt can fall after it.
\<close>

theorem acquire_returns_within_poll:
  assumes "nat \<lceil>10 * t\<rceil> < fuel"
  shows "\<exists>ok c tbl'. bucket_acquire rnd fuel name req (Some t) clock tbl = Some (ok, c, tbl')
           \<and> clock \<le> c \<and> (c = clock \<or> c < clock + t + 1 / 10) \<and> (ok \<or> clock + t \<le> c)"
proof -
  from assms obtain n where n: "fuel = Suc n"
    by (cases fuel) auto
  with assms have le: "nat \<lceil>10 * t\<rceil> \<le> n"
    by (simp only: less_Suc_eq_le)
  have "10 * t \<le> real_of_int \<lceil>10 * t\<rceil>" by (rule le_of_int_ceiling)
  also have "\<dots> \<le> real (nat \<lceil>10 * t\<rceil>)" by simp
  also have "\<dots> \<le> real n" using le by simp
  finally have "(clock + t) - clock \<le> real n / 10" by simp
  from acquire_loop_returns[OF this, of rnd name req tbl]
  obtain ok c tbl' where r: "acquire_loop rnd fuel name req (Some (clock + t)) clock tbl = Some (ok, c, tbl')"
    unfolding n by (cases "acquire_loop rnd (Suc n) name req (Some (clock + t)) clock tbl") auto
  from acquire_loop_bound[OF r] r show ?thesis
    by (simp add: bucket_acquire_def)
qed

theorem acquire_returns_within_poll_witness:
  "\<exists>ok c tbl'. bucket_acquire (\<lambda>x. x) 3 ''b'' 1 (Some (1 / 10)) 7
          [''b'' \<mapsto> \<lparr>capacity = 1, tokens = 0, refill_rate = 0, updated_at = 0\<rparr>] = Some (ok, c, tbl')
      \<and> 7 \<le> c \<and> (c = 7 \<or> c < 7 + 1 / 10 + 1 / 10) \<and> (ok \<or> 7 + 1 / 10 \<le> c)"
proof -
  have "nat \<lceil>10 * (1 / 10 :: real)\<rceil> < 3" by simp
  from acquire_returns_within_poll[OF this] show ?thesis by blast
qed

end
